theory Spec2Isabelle
  imports Complex_Main
begin

section \<open>Python values, exceptions and results\<close>

text \<open>
  The program is \<^verbatim>\<open>points-to-bq/main_gcf.py\<close>. Every function of it that can raise is
  modelled as a function into \<open>error + 'a\<close>: \<open>Inl e\<close> is the exception \<open>e\<close> raised,
  \<open>Inr v\<close> the value returned. Only subclasses of \<^verbatim>\<open>Exception\<close> are modelled (the
  program's handlers catch nothing else). In the rows, Python's \<^verbatim>\<open>float\<close> is modelled by
  \<open>real\<close>: sums and products are exact, and NaN and the infinities are not values of
  the model. \<open>extract_multiplier\<close>, which only compares floats, is modelled for any
  linearly ordered type of floats.
\<close>

datatype error =
  KeyError | ValueError | TypeError | IndexError | AttributeError | OverflowError
  | ExternalError

definition rbind :: "error + 'a \<Rightarrow> ('a \<Rightarrow> error + 'b) \<Rightarrow> error + 'b" where
  "rbind m f = (case m of Inl e \<Rightarrow> Inl e | Inr x \<Rightarrow> f x)"

text \<open>
  A parsed JSON document, as \<^verbatim>\<open>json.loads\<close> returns it: \<^verbatim>\<open>None\<close>, a bool, an int,
  a float, a str, a list or a dict with string keys. A str is held as the bytes of its
  UTF-8 encoding, so that two strs are equal exactly when their bytes are.
\<close>

datatype json =
  JNull | JBool bool | JInt int | JFloat real | JStr string
  | JArr "json list" | JObj "(string \<times> json) list"

text \<open>
  The characters of a str and their code points, read off the encoding: the leading byte
  of a character says how many continuation bytes follow it, and a continuation byte
  carries six bits of the code point. Every str has an encoding (that of a lone
  surrogate included); a list of bytes that is the encoding of no str stands for no
  value of the program.
\<close>

definition utf8_len :: "char \<Rightarrow> nat" where
  "utf8_len c =
     (let b = of_char c :: nat in
      if b < 192 then 1 else if b < 224 then 2 else if b < 240 then 3
      else if b < 248 then 4 else 1)"

function utf8_chars :: "string \<Rightarrow> string list" where
  "utf8_chars [] = []"
| "utf8_chars (c # cs) =
     (c # take (utf8_len c - 1) cs) # utf8_chars (drop (utf8_len c - 1) cs)"
  by pat_completeness auto
termination
  by (relation "measure length") simp_all

text \<open>\<^verbatim>\<open>ord(ch)\<close> of a character, and the code points of a str.\<close>

definition utf8_ord :: "string \<Rightarrow> nat" where
  "utf8_ord ch =
     (case ch of
        [] \<Rightarrow> 0
      | c # cs \<Rightarrow>
          (let b = of_char c :: nat;
               lead = (if b < 192 then b else if b < 224 then b mod 32
                       else if b < 240 then b mod 16 else if b < 248 then b mod 8 else b)
           in foldl (\<lambda>n x. n * 64 + of_char x mod 64) lead cs))"

definition utf8_decode :: "string \<Rightarrow> nat list" where
  "utf8_decode s = map utf8_ord (utf8_chars s)"

text \<open>Truth value of an object in a condition (\<^verbatim>\<open>if x:\<close>, \<^verbatim>\<open>x and y\<close>).\<close>

fun py_truthy :: "json \<Rightarrow> bool" where
  "py_truthy JNull = False"
| "py_truthy (JBool b) = b"
| "py_truthy (JInt i) = (i \<noteq> 0)"
| "py_truthy (JFloat r) = (r \<noteq> 0)"
| "py_truthy (JStr s) = (s \<noteq> [])"
| "py_truthy (JArr xs) = (xs \<noteq> [])"
| "py_truthy (JObj kvs) = (kvs \<noteq> [])"

text \<open>
  \<^verbatim>\<open>d[k]\<close> for a string key \<open>k\<close>: a dict raises KeyError on a missing key; a list or a
  str takes integer indices only and every other value is not subscriptable (TypeError).
\<close>

fun py_getitem :: "json \<Rightarrow> string \<Rightarrow> error + json" where
  "py_getitem (JObj kvs) k = (case map_of kvs k of Some v \<Rightarrow> Inr v | None \<Rightarrow> Inl KeyError)"
| "py_getitem _ k = Inl TypeError"

text \<open>
  \<^verbatim>\<open>d[0]\<close>: the first element of a list (IndexError when empty), the first character of
  a str; a dict of a JSON document has string keys only, so the key \<open>0\<close> is missing.
\<close>

fun py_getitem0 :: "json \<Rightarrow> error + json" where
  "py_getitem0 (JArr xs) = (case xs of [] \<Rightarrow> Inl IndexError | x # _ \<Rightarrow> Inr x)"
| "py_getitem0 (JStr s) =
     (case utf8_chars s of [] \<Rightarrow> Inl IndexError | c # _ \<Rightarrow> Inr (JStr c))"
| "py_getitem0 (JObj kvs) = Inl KeyError"
| "py_getitem0 _ = Inl TypeError"

text \<open>\<^verbatim>\<open>d.get(k, default)\<close>: only a dict has the method.\<close>

fun py_get :: "json \<Rightarrow> string \<Rightarrow> json \<Rightarrow> error + json" where
  "py_get (JObj kvs) k dflt = Inr (case map_of kvs k of Some v \<Rightarrow> v | None \<Rightarrow> dflt)"
| "py_get _ k dflt = Inl AttributeError"

text \<open>\<^verbatim>\<open>d[k] = v\<close> for a string key: only a dict accepts it.\<close>

fun py_setitem :: "json \<Rightarrow> string \<Rightarrow> json \<Rightarrow> error + json" where
  "py_setitem (JObj kvs) k v = Inr (JObj ((k, v) # filter (\<lambda>kv. fst kv \<noteq> k) kvs))"
| "py_setitem _ k v = Inl TypeError"

text \<open>
  \<^verbatim>\<open>for item in x\<close>: a list yields its elements, a str its characters, a dict its keys;
  nothing else is iterable.
\<close>

fun py_iter :: "json \<Rightarrow> error + json list" where
  "py_iter (JArr xs) = Inr xs"
| "py_iter (JStr s) = Inr (map JStr (utf8_chars s))"
| "py_iter (JObj kvs) = Inr (map JStr (remdups (map fst kvs)))"
| "py_iter _ = Inl TypeError"

text \<open>
  \<^verbatim>\<open>float(x)\<close>. An int too large for a double raises OverflowError: the doubles end at
  \<open>2^1024 - 2^971\<close> and an int rounds to the nearest. A str is parsed by the function
  \<open>parse_float\<close> of the library, a parameter of the model (\<open>None\<close>: ValueError).
\<close>

fun py_float :: "(string \<Rightarrow> real option) \<Rightarrow> json \<Rightarrow> error + real" where
  "py_float pf (JInt i) =
     (if \<bar>i\<bar> \<ge> 2 ^ 1024 - 2 ^ 970 then Inl OverflowError else Inr (real_of_int i))"
| "py_float pf (JFloat r) = Inr r"
| "py_float pf (JBool b) = Inr (if b then 1 else 0)"
| "py_float pf (JStr s) = (case pf s of Some r \<Rightarrow> Inr r | None \<Rightarrow> Inl ValueError)"
| "py_float pf _ = Inl TypeError"

text \<open>\<^verbatim>\<open>sum(xs)\<close>: starts from 0 and adds from the left.\<close>

definition py_sum :: "real list \<Rightarrow> real" where
  "py_sum xs = foldl (+) 0 xs"

section \<open>Dates and times\<close>

text \<open>
  An aware \<^verbatim>\<open>datetime\<close>: the local calendar day as its proleptic Gregorian ordinal
  (\<^verbatim>\<open>date.toordinal()\<close>, day 1 is 0001-01-01), the local wall-clock fields, and the
  offset from UTC in seconds.
\<close>

record datetime =
  ordinal :: int
  dt_hour :: nat
  dt_minute :: nat
  dt_second :: nat
  dt_microsecond :: nat
  utcoffset :: int

text \<open>A time of day, the value of \<^verbatim>\<open>datetime.time()\<close>.\<close>

record time_of_day =
  hour :: nat
  minute :: nat
  second :: nat
  microsecond :: nat

text \<open>The standard library's day count (\<^verbatim>\<open>_ymd2ord\<close>), used to write dates down.\<close>

definition is_leap :: "int \<Rightarrow> bool" where
  "is_leap y = (y mod 4 = 0 \<and> (y mod 100 \<noteq> 0 \<or> y mod 400 = 0))"

definition days_before_year :: "int \<Rightarrow> int" where
  "days_before_year year = (let y = year - 1 in y * 365 + y div 4 - y div 100 + y div 400)"

definition days_before_month :: "int \<Rightarrow> nat \<Rightarrow> int" where
  "days_before_month year month =
     [0, 0, 31, 59, 90, 120, 151, 181, 212, 243, 273, 304, 334] ! month
     + (if month > 2 \<and> is_leap year then 1 else 0)"

definition ymd2ord :: "int \<Rightarrow> nat \<Rightarrow> nat \<Rightarrow> int" where
  "ymd2ord year month day = days_before_year year + days_before_month year month + int day"

definition utc_datetime :: "int \<Rightarrow> nat \<Rightarrow> nat \<Rightarrow> nat \<Rightarrow> nat \<Rightarrow> nat \<Rightarrow> datetime" where
  "utc_datetime y mo d h mi s =
     \<lparr>ordinal = ymd2ord y mo d, dt_hour = h, dt_minute = mi, dt_second = s,
      dt_microsecond = 0, utcoffset = 0\<rparr>"

text \<open>Seconds from the start of day 0 to the instant, on the UTC clock.\<close>

definition utc_seconds :: "datetime \<Rightarrow> int" where
  "utc_seconds dt =
     ordinal dt * 86400 + int (dt_hour dt) * 3600 + int (dt_minute dt) * 60
     + int (dt_second dt) - utcoffset dt"

text \<open>\<^verbatim>\<open>dt.astimezone(tz)\<close>: the same instant on the clock of a zone whose offset at
  the instant is \<open>off\<close> seconds.\<close>

definition astimezone :: "datetime \<Rightarrow> int \<Rightarrow> datetime" where
  "astimezone dt off =
     (let loc = utc_seconds dt + off; sod = nat (loc mod 86400) in
      \<lparr>ordinal = loc div 86400, dt_hour = sod div 3600, dt_minute = (sod mod 3600) div 60,
       dt_second = sod mod 60, dt_microsecond = dt_microsecond dt, utcoffset = off\<rparr>)"

text \<open>
  The zone \<^verbatim>\<open>America/Sao_Paulo\<close> of the time zone database: daylight saving time ended
  for good on 17 February 2019 at 00:00 local time (02:00 UTC), and the zone has been at
  UTC-03:00 since. The offsets before that instant (the years with daylight saving time)
  are a parameter \<open>hist\<close> of the model.
\<close>

definition sao_paulo_utcoffset :: "(int \<Rightarrow> int) \<Rightarrow> int \<Rightarrow> int" where
  "sao_paulo_utcoffset hist utc =
     (if utc \<ge> ymd2ord 2019 2 17 * 86400 + 7200 then - 10800 else hist utc)"

definition convert_to_sao_paulo_time :: "(int \<Rightarrow> int) \<Rightarrow> datetime \<Rightarrow> datetime" where
  "convert_to_sao_paulo_time hist utc_timestamp =
     astimezone utc_timestamp (sao_paulo_utcoffset hist (utc_seconds utc_timestamp))"

text \<open>\<^verbatim>\<open>dt.time()\<close> and \<^verbatim>\<open>dt.weekday()\<close> (Monday is 0, Friday is 4).\<close>

definition dt_time :: "datetime \<Rightarrow> time_of_day" where
  "dt_time dt =
     \<lparr>hour = dt_hour dt, minute = dt_minute dt, second = dt_second dt,
      microsecond = dt_microsecond dt\<rparr>"

definition weekday :: "datetime \<Rightarrow> int" where
  "weekday dt = (ordinal dt + 6) mod 7"

text \<open>Times of day compare as the tuples (hour, minute, second, microsecond).\<close>

definition time_lt :: "time_of_day \<Rightarrow> time_of_day \<Rightarrow> bool" where
  "time_lt a b =
     (hour a < hour b \<or> (hour a = hour b \<and>
       (minute a < minute b \<or> (minute a = minute b \<and>
         (second a < second b \<or> (second a = second b \<and>
           microsecond a < microsecond b))))))"

definition time_le :: "time_of_day \<Rightarrow> time_of_day \<Rightarrow> bool" where
  "time_le a b =
     (time_lt a b \<or> (hour a = hour b \<and> minute a = minute b \<and> second a = second b
        \<and> microsecond a = microsecond b))"

section \<open>The multiplier engine\<close>

subsection \<open>The rate embedded in a product's notes\<close>

text \<open>
  \<^verbatim>\<open>re.findall(r'{{(\d+\.\d+)}}', obs)\<close> on a str. The pattern is a str pattern, so
  \<^verbatim>\<open>\d\<close> matches every character that the Unicode database of the interpreter gives a
  decimal digit value (category Nd), not the ASCII digits only. \<open>ud\<close> is that table
  above the ASCII range, a parameter of the model: \<open>ud c\<close> is the digit value of the
  code point \<open>c\<close>, or \<open>None\<close>. Below 128 the decimal digits are \<^verbatim>\<open>0\<close> to \<^verbatim>\<open>9\<close>.
\<close>

definition to_decimal :: "(nat \<Rightarrow> nat option) \<Rightarrow> nat \<Rightarrow> nat option" where
  "to_decimal ud c =
     (if c < 128 then (if 48 \<le> c \<and> c \<le> 57 then Some (c - 48) else None) else ud c)"

definition is_digit :: "(nat \<Rightarrow> nat option) \<Rightarrow> nat \<Rightarrow> bool" where
  "is_digit ud c = (to_decimal ud c \<noteq> None)"

text \<open>The code points of the three literal characters of the pattern.\<close>

definition lbrace :: nat where
  "lbrace = of_char CHR ''{''"

definition rbrace :: nat where
  "rbrace = of_char CHR ''}''"

definition dot :: nat where
  "dot = of_char CHR ''.''"

text \<open>
  \<open>match_here ud s\<close> matches the pattern at the start of the code points \<open>s\<close>: two
  opening braces, one or more digits (as many as there are: the next character must be
  the dot, so giving a digit back never helps), a dot, one or more digits, two closing
  braces. It returns the group and the text after the match. \<open>findall\<close> scans from the
  left, continues after a match and moves one character on where there is none.
\<close>

definition match_here ::
  "(nat \<Rightarrow> nat option) \<Rightarrow> nat list \<Rightarrow> (nat list \<times> nat list) option" where
  "match_here ud s =
     (case s of
        c1 # c2 # r0 \<Rightarrow>
          if c1 = lbrace \<and> c2 = lbrace then
            (let d1 = takeWhile (is_digit ud) r0; r1 = dropWhile (is_digit ud) r0 in
             if d1 = [] then None
             else (case r1 of
                     c3 # r2 \<Rightarrow>
                       if c3 = dot then
                         (let d2 = takeWhile (is_digit ud) r2;
                              r3 = dropWhile (is_digit ud) r2 in
                          if d2 = [] then None
                          else (case r3 of
                                  c4 # c5 # r4 \<Rightarrow>
                                    if c4 = rbrace \<and> c5 = rbrace
                                    then Some (d1 @ [dot] @ d2, r4) else None
                                | _ \<Rightarrow> None))
                       else None
                   | [] \<Rightarrow> None))
          else None
      | _ \<Rightarrow> None)"

function findall :: "(nat \<Rightarrow> nat option) \<Rightarrow> nat list \<Rightarrow> nat list list" where
  "findall ud [] = []"
| "findall ud (c # cs) =
     (case match_here ud (c # cs) of
        Some (g, rest) \<Rightarrow> g # findall ud rest
      | None \<Rightarrow> findall ud cs)"
  by pat_completeness auto
termination
proof (relation "measure (\<lambda>(ud, s). length s)")
  show "wf (measure (\<lambda>(ud, s). length s))" by simp
next
  fix ud :: "nat \<Rightarrow> nat option" and c :: nat and cs :: "nat list"
  show "((ud, cs), (ud, c # cs)) \<in> measure (\<lambda>(ud, s). length s)" by simp
next
  fix ud :: "nat \<Rightarrow> nat option" and c :: nat and cs x2 g rest
  assume "match_here ud (c # cs) = Some x2" and "(g, rest) = x2"
  then have m: "match_here ud (c # cs) = Some (g, rest)" by simp
  have dw: "\<And>xs. length (dropWhile (is_digit ud) xs) \<le> length xs"
    by (simp add: length_dropWhile_le)
  from m obtain r0 r2 where
    s: "c # cs = lbrace # lbrace # r0" and
    r1: "dropWhile (is_digit ud) r0 = dot # r2" and
    r3: "dropWhile (is_digit ud) r2 = rbrace # rbrace # rest"
    by (auto simp: match_here_def Let_def split: list.splits if_splits)
  from dw [of r0] r1 have "length r2 < length r0" by simp
  moreover from dw [of r2] r3 have "length rest < length r2" by simp
  ultimately have "length rest < length (c # cs)" using s by simp
  then show "((ud, rest), (ud, c # cs)) \<in> measure (\<lambda>(ud, s). length s)" by simp
qed

text \<open>\<^verbatim>\<open>min(xs)\<close> of a list that is not empty: the first element, lowered along the list.\<close>

definition py_min :: "'a::linorder list \<Rightarrow> 'a" where
  "py_min xs = fold min (tl xs) (hd xs)"

text \<open>
  \<open>obs\<close> is whatever the product document holds under \<^verbatim>\<open>obs\<close>; \<^verbatim>\<open>re.findall\<close> raises
  TypeError on anything but a str. \<open>fl\<close> is \<^verbatim>\<open>float(match)\<close> on a matched text (decimal
  digits, a dot, decimal digits, in any script), which always returns: the double
  nearest to the decimal value of the text, the infinity when that value is beyond the
  doubles, zero when it is too small. The function is written for any type \<open>'f\<close> of
  floats that is linearly ordered and has a zero, so the doubles with their infinity
  are an instance of it.
\<close>

fun extract_multiplier ::
  "(nat \<Rightarrow> nat option) \<Rightarrow> (nat list \<Rightarrow> 'f::{linorder,zero}) \<Rightarrow> json \<Rightarrow> error + 'f" where
  "extract_multiplier ud fl (JStr obs) =
     (let matches = findall ud (utf8_decode obs) in
      if matches \<noteq> [] then
        (let multipliers = map fl matches;
             lowest_multiplier = py_min multipliers
         in Inr lowest_multiplier)
      else Inr 0)"
| "extract_multiplier ud fl _ = Inl TypeError"

subsection \<open>The situational rate\<close>

text \<open>
  The configuration read from the environment at import, and what the model takes from
  the libraries as given: \<^verbatim>\<open>float\<close> on a str, \<^verbatim>\<open>datetime.strptime(s, '%d/%m/%Y')\<close>
  followed by \<^verbatim>\<open>strftime('%Y-%m-%d')\<close>, \<^verbatim>\<open>datetime.fromisoformat\<close> (\<open>None\<close> is
  ValueError in all three), the decimal digits of the Unicode database above the ASCII
  range and \<^verbatim>\<open>float\<close> on a text matched by the pattern of \<open>extract_multiplier\<close> (the
  parameters \<open>ud\<close> and \<open>fl\<close> of that function, \<open>fl\<close> into the reals as for every
  float of a row), the history of the zone before 2019, and the clock:
  \<open>clock env n\<close> is the \<open>n\<close>-th reading of
  \<^verbatim>\<open>datetime.now(tz=ZoneInfo("America/Sao_Paulo")).isoformat()\<close> while one message
  is handled.
\<close>

record env =
  PROJECT_ID :: "string option"
  SOURCE_IDENTIFIER :: "string option"
  VERSION_CONTROL :: "string option"
  FIDELIDADE_MULTIPLIER :: real
  MORNING_MULTIPLIER :: real
  HAPPYHOUR_MULTIPLIER :: real
  parse_float :: "string \<Rightarrow> real option"
  unicode_decimal :: "nat \<Rightarrow> nat option"
  float_of_match :: "nat list \<Rightarrow> real"
  strptime_dmy :: "string \<Rightarrow> string option"
  fromisoformat :: "string \<Rightarrow> datetime option"
  tz_history :: "int \<Rightarrow> int"
  clock :: "nat \<Rightarrow> string"

text \<open>
  The expression \<^verbatim>\<open>datetime.time(h, m, s)\<close> of \<^verbatim>\<open>get_special_multiplier\<close>. The module
  imports the class (\<^verbatim>\<open>from datetime import datetime\<close>), so \<^verbatim>\<open>datetime.time\<close> is the
  method \<^verbatim>\<open>time\<close> of that class, and calling it on the int \<open>h\<close> raises TypeError
  (the descriptor applies to \<^verbatim>\<open>datetime\<close> objects only): this is \<open>datetime_time\<close>. The
  functions below take the value of the expression as their first argument \<open>tc\<close>; the
  program is their instance at \<open>datetime_time\<close>.
\<close>

definition datetime_time :: "nat \<Rightarrow> nat \<Rightarrow> nat \<Rightarrow> error + time_of_day" where
  "datetime_time h m s = Inl TypeError"

text \<open>
  A chained comparison \<^verbatim>\<open>lo <= t < hi\<close>: \<open>lo\<close> is evaluated and compared first, and
  \<open>hi\<close> is evaluated only when the first comparison holds.
\<close>

definition in_window ::
  "(error + time_of_day) \<Rightarrow> time_of_day \<Rightarrow> (error + time_of_day) \<Rightarrow> error + bool" where
  "in_window lo t hi =
     rbind lo (\<lambda>l. if time_le l t then rbind hi (\<lambda>h. Inr (time_lt t h)) else Inr False)"

definition get_special_multiplier ::
  "(nat \<Rightarrow> nat \<Rightarrow> nat \<Rightarrow> error + time_of_day) \<Rightarrow> env \<Rightarrow> datetime \<Rightarrow> error + real" where
  "get_special_multiplier tc env processing_timestamp =
     (let sao_paulo_timestamp = convert_to_sao_paulo_time (tz_history env) processing_timestamp;
          purchase_time = dt_time sao_paulo_timestamp;
          purchase_weekday = weekday sao_paulo_timestamp
      in
      rbind (in_window (tc 5 0 0) purchase_time (tc 10 0 0)) (\<lambda>morning.
        let special_multipliers1 = (if morning then [MORNING_MULTIPLIER env] else []) in
        rbind (if purchase_weekday = 4 then in_window (tc 18 0 0) purchase_time (tc 22 0 0)
               else Inr False) (\<lambda>happy.
          let special_multipliers =
                (if happy then special_multipliers1 @ [HAPPYHOUR_MULTIPLIER env]
                 else special_multipliers1)
          in
          if special_multipliers \<noteq> [] then Inr (py_sum special_multipliers) else Inr 0)))"

section \<open>The specification's notions\<close>

text \<open>
  Following the specification's words (section 4.2): a marker is a text of the form
  \<^verbatim>\<open>{{<decimal>}}\<close>, a decimal being digits, a dot, digits. \<open>marker_texts ud obs\<close> are
  the decimals of the markers that appear anywhere in the code points \<open>obs\<close>,
  \<open>decimal_value ud g\<close> is the value of the decimal \<open>g\<close> as a real number, and
  \<open>marker_values ud obs\<close> are the values of the markers of \<open>obs\<close>.
\<close>

definition marker_texts :: "(nat \<Rightarrow> nat option) \<Rightarrow> nat list \<Rightarrow> nat list set" where
  "marker_texts ud obs =
     {d1 @ [dot] @ d2 | d1 d2 pre post.
        obs = pre @ [lbrace, lbrace] @ d1 @ [dot] @ d2 @ [rbrace, rbrace] @ post
        \<and> d1 \<noteq> [] \<and> d2 \<noteq> [] \<and> list_all (is_digit ud) d1 \<and> list_all (is_digit ud) d2}"

definition digits_val :: "(nat \<Rightarrow> nat option) \<Rightarrow> nat list \<Rightarrow> nat" where
  "digits_val ud ds =
     foldl (\<lambda>n c. 10 * n + (case to_decimal ud c of Some d \<Rightarrow> d | None \<Rightarrow> 0)) 0 ds"

definition decimal_value :: "(nat \<Rightarrow> nat option) \<Rightarrow> nat list \<Rightarrow> real" where
  "decimal_value ud g =
     (let d1 = takeWhile (is_digit ud) g; d2 = drop 1 (dropWhile (is_digit ud) g) in
      real (digits_val ud d1) + real (digits_val ud d2) / 10 ^ length d2)"

definition marker_values :: "(nat \<Rightarrow> nat option) \<Rightarrow> nat list \<Rightarrow> real set" where
  "marker_values ud obs = decimal_value ud ` marker_texts ud obs"

text \<open>The pattern matches somewhere in \<open>s\<close> with group \<open>g\<close>.\<close>

definition occurs :: "(nat \<Rightarrow> nat option) \<Rightarrow> nat list \<Rightarrow> nat list \<Rightarrow> bool" where
  "occurs ud g s = (\<exists>pre m rest. s = pre @ m \<and> match_here ud m = Some (g, rest))"

section \<open>The row assembler\<close>

text \<open>
  A row of the item table and a row of the order table, as the dicts that
  \<^verbatim>\<open>process_pedido_item\<close> and \<^verbatim>\<open>prepare_sales_row\<close> build. A field copied from a
  document keeps the document's value (\<open>json\<close>).
\<close>

record sales_items_row =
  item_uuid :: string
  item_timestamp :: datetime
  item_pedido_dia :: string
  item_pedido_id :: json
  item_pedido_numero :: json
  item_cliente_nome :: json
  item_cliente_cpf :: json
  item_vendedor_nome :: json
  item_vendedor_id :: json
  produto_idProduto :: json
  produto_descricao :: json
  produto_category_first :: string
  produto_category_second :: string
  produto_quantidade :: real
  produto_valor :: real
  produto_valor_total :: real
  produto_multiplier :: real
  item_fidelidade_multiplier :: real
  special_multiplier :: real
  final_multiplier :: real
  produto_pontos :: real
  item_project_id :: "string option"
  item_source_identifier :: "string option"
  item_version_control :: "string option"
  item_processed_timestamp :: string

record sales_row =
  row_uuid :: string
  row_timestamp :: datetime
  row_pedido_dia :: string
  row_pedido_id :: json
  row_pedido_numero :: json
  row_cliente_nome :: json
  row_cliente_cpf :: json
  row_vendedor_nome :: json
  row_vendedor_id :: json
  pedido_valor :: real
  row_fidelidade_multiplier :: real
  pedido_pontos :: real
  row_project_id :: "string option"
  row_source_identifier :: "string option"
  row_version_control :: "string option"
  row_processed_timestamp :: string

text \<open>
  \<^verbatim>\<open>produto_data.get(produto_id)\<close>: the dict has the product ids of the blobs' metadata
  (strings) as keys. A list or a dict is not hashable (TypeError); any other key that is
  not a str is in no entry. A missing entry gives \<^verbatim>\<open>None\<close>.
\<close>

fun dict_get :: "(string \<rightharpoonup> json) \<Rightarrow> json \<Rightarrow> error + json" where
  "dict_get d (JStr k) = Inr (case d k of Some v \<Rightarrow> v | None \<Rightarrow> JNull)"
| "dict_get d (JArr xs) = Inl TypeError"
| "dict_get d (JObj kvs) = Inl TypeError"
| "dict_get d _ = Inr JNull"

text \<open>\<^verbatim>\<open>s.split(' >> ')\<close>, and the method on a value that is not a str (AttributeError).\<close>

fun split_sep :: "string \<Rightarrow> string list" where
  "split_sep [] = [[]]"
| "split_sep (c # cs) =
     (if take 4 (c # cs) = '' >> '' then [] # split_sep (drop 3 cs)
      else (case split_sep cs of p # ps \<Rightarrow> (c # p) # ps | [] \<Rightarrow> [[c]]))"

fun py_split :: "json \<Rightarrow> error + string list" where
  "py_split (JStr s) = Inr (split_sep s)"
| "py_split _ = Inl AttributeError"

text \<open>
  \<open>process_pedido_item\<close> returns the triple (value, points, row), the row being
  \<^verbatim>\<open>None\<close> for an item that is dropped. \<open>tick\<close> is the number of clock readings
  taken before the call.
\<close>

definition process_pedido_item ::
  "(nat \<Rightarrow> nat \<Rightarrow> nat \<Rightarrow> error + time_of_day) \<Rightarrow> env \<Rightarrow> nat \<Rightarrow> json \<Rightarrow> (string \<rightharpoonup> json)
   \<Rightarrow> datetime \<Rightarrow> string \<Rightarrow> string \<Rightarrow> json \<Rightarrow> json \<Rightarrow> json \<Rightarrow> json
   \<Rightarrow> error + (real \<times> real \<times> sales_items_row option)" where
  "process_pedido_item tc env tick item produto_data processing_timestamp pedido_dia uuid
       nome_vendedor id_vendedor cliente_nome cliente_cpf =
     rbind (py_getitem item ''idProduto'') (\<lambda>produto_id.
     rbind (dict_get produto_data produto_id) (\<lambda>produto.
     if py_truthy produto then
       rbind (py_get item ''descricao'' (JStr [])) (\<lambda>produto_descricao.
       rbind (rbind (py_get item ''quantidade'' (JInt 0)) (py_float (parse_float env)))
         (\<lambda>produto_quantidade.
       rbind (rbind (py_get item ''valor'' (JInt 0)) (py_float (parse_float env)))
         (\<lambda>produto_valor.
       rbind (rbind (py_get item ''desconto'' (JInt 0)) (py_float (parse_float env)))
         (\<lambda>produto_desconto.
       rbind (rbind (rbind (py_getitem produto ''produto'')
                       (\<lambda>p. py_get p ''preco_custo'' (JInt 0)))
                (py_float (parse_float env)))
         (\<lambda>produto_preco_custo.
       rbind (rbind (py_getitem produto ''produto'') (\<lambda>p. py_get p ''obs'' (JStr [])))
         (\<lambda>produto_obs.
       rbind (rbind (py_getitem produto ''produto'') (\<lambda>p. py_get p ''categoria'' (JStr [])))
         (\<lambda>produto_categoria.
       rbind (extract_multiplier (unicode_decimal env) (float_of_match env) produto_obs)
         (\<lambda>produto_multiplier.
       rbind (get_special_multiplier tc env processing_timestamp) (\<lambda>special_multiplier.
       let final_multiplier =
             FIDELIDADE_MULTIPLIER env + special_multiplier + produto_multiplier;
           produto_valor_total = produto_quantidade * produto_valor;
           produto_pontos = produto_valor_total * final_multiplier
       in
       rbind (py_split produto_categoria) (\<lambda>categoria_split.
       let produto_category_first =
             (if length categoria_split > 0 then categoria_split ! 0 else []);
           produto_category_second =
             (if length categoria_split > 1 then categoria_split ! 1 else [])
       in
       rbind (py_getitem item ''pedido_id'') (\<lambda>item_pedido_id.
       rbind (py_getitem item ''pedido_numero'') (\<lambda>item_pedido_numero.
       Inr (produto_valor_total, produto_pontos,
            Some \<lparr>item_uuid = uuid,
                  item_timestamp =
                    convert_to_sao_paulo_time (tz_history env) processing_timestamp,
                  item_pedido_dia = pedido_dia,
                  item_pedido_id = item_pedido_id,
                  item_pedido_numero = item_pedido_numero,
                  item_cliente_nome = cliente_nome,
                  item_cliente_cpf = cliente_cpf,
                  item_vendedor_nome = nome_vendedor,
                  item_vendedor_id = id_vendedor,
                  produto_idProduto = produto_id,
                  produto_descricao = produto_descricao,
                  produto_category_first = produto_category_first,
                  produto_category_second = produto_category_second,
                  produto_quantidade = produto_quantidade,
                  produto_valor = produto_valor,
                  produto_valor_total = produto_valor_total,
                  produto_multiplier = produto_multiplier,
                  item_fidelidade_multiplier = FIDELIDADE_MULTIPLIER env,
                  special_multiplier = special_multiplier,
                  final_multiplier = final_multiplier,
                  produto_pontos = produto_pontos,
                  item_project_id = PROJECT_ID env,
                  item_source_identifier = SOURCE_IDENTIFIER env,
                  item_version_control = VERSION_CONTROL env,
                  item_processed_timestamp = clock env tick\<rparr>)))))))))))))
     else Inr (0, 0, None)))"

text \<open>
  The loop of \<open>process_pedido_items\<close> over the items, with the rows collected so far.
  Each row that is kept has read the clock once.
\<close>

fun items_loop ::
  "(nat \<Rightarrow> nat \<Rightarrow> nat \<Rightarrow> error + time_of_day) \<Rightarrow> env \<Rightarrow> json \<Rightarrow> (string \<rightharpoonup> json)
   \<Rightarrow> datetime \<Rightarrow> string \<Rightarrow> string \<Rightarrow> json \<Rightarrow> json \<Rightarrow> json \<Rightarrow> json
   \<Rightarrow> json list \<Rightarrow> sales_items_row list \<Rightarrow> error + sales_items_row list" where
  "items_loop tc env pedido_pdv produto_data processing_timestamp pedido_dia uuid
       nome_vendedor id_vendedor cliente_nome cliente_cpf [] sales_items_rows =
     Inr sales_items_rows"
| "items_loop tc env pedido_pdv produto_data processing_timestamp pedido_dia uuid
       nome_vendedor id_vendedor cliente_nome cliente_cpf (item # items) sales_items_rows =
     rbind (py_getitem pedido_pdv ''id'') (\<lambda>pid.
     rbind (py_setitem item ''pedido_id'' pid) (\<lambda>item1.
     rbind (py_getitem pedido_pdv ''numero'') (\<lambda>pnum.
     rbind (py_setitem item1 ''pedido_numero'' pnum) (\<lambda>item2.
     rbind (process_pedido_item tc env (length sales_items_rows) item2 produto_data
              processing_timestamp pedido_dia uuid nome_vendedor id_vendedor
              cliente_nome cliente_cpf)
       (\<lambda>(produto_valor_total, produto_pontos, sales_items_row).
     items_loop tc env pedido_pdv produto_data processing_timestamp pedido_dia uuid
       nome_vendedor id_vendedor cliente_nome cliente_cpf items
       (case sales_items_row of
          Some row \<Rightarrow> sales_items_rows @ [row]
        | None \<Rightarrow> sales_items_rows))))))"

definition process_pedido_items ::
  "(nat \<Rightarrow> nat \<Rightarrow> nat \<Rightarrow> error + time_of_day) \<Rightarrow> env \<Rightarrow> json \<Rightarrow> (string \<rightharpoonup> json)
   \<Rightarrow> datetime \<Rightarrow> string \<Rightarrow> string \<Rightarrow> json \<Rightarrow> json \<Rightarrow> json \<Rightarrow> json
   \<Rightarrow> error + (real \<times> real \<times> sales_items_row list)" where
  "process_pedido_items tc env pedido_pdv produto_data processing_timestamp pedido_dia uuid
       nome_vendedor id_vendedor cliente_nome cliente_cpf =
     rbind (rbind (py_getitem pedido_pdv ''itens'') py_iter) (\<lambda>items.
     rbind (items_loop tc env pedido_pdv produto_data processing_timestamp pedido_dia uuid
              nome_vendedor id_vendedor cliente_nome cliente_cpf items [])
       (\<lambda>sales_items_rows.
     let pedido_valor = py_sum (map produto_valor_total sales_items_rows);
         pedido_pontos = py_sum (map produto_pontos sales_items_rows)
     in Inr (pedido_valor, pedido_pontos, sales_items_rows)))"

definition prepare_sales_row ::
  "env \<Rightarrow> nat \<Rightarrow> string \<Rightarrow> datetime \<Rightarrow> string \<Rightarrow> json \<Rightarrow> json \<Rightarrow> json \<Rightarrow> json \<Rightarrow> json
   \<Rightarrow> real \<Rightarrow> real \<Rightarrow> error + sales_row" where
  "prepare_sales_row env tick uuid processing_timestamp pedido_dia pedido_pdv nome_vendedor
       id_vendedor cliente_nome cliente_cpf valor pontos =
     rbind (py_getitem pedido_pdv ''id'') (\<lambda>pid.
     rbind (py_getitem pedido_pdv ''numero'') (\<lambda>pnum.
     Inr \<lparr>row_uuid = uuid,
          row_timestamp = convert_to_sao_paulo_time (tz_history env) processing_timestamp,
          row_pedido_dia = pedido_dia,
          row_pedido_id = pid,
          row_pedido_numero = pnum,
          row_cliente_nome = cliente_nome,
          row_cliente_cpf = cliente_cpf,
          row_vendedor_nome = nome_vendedor,
          row_vendedor_id = id_vendedor,
          pedido_valor = valor,
          row_fidelidade_multiplier = FIDELIDADE_MULTIPLIER env,
          pedido_pontos = pontos,
          row_project_id = PROJECT_ID env,
          row_source_identifier = SOURCE_IDENTIFIER env,
          row_version_control = VERSION_CONTROL env,
          row_processed_timestamp = clock env tick\<rparr>))"

section \<open>Extraction from the documents\<close>

text \<open>\<^verbatim>\<open>try: ... except (e1, e2): return dflt\<close>: the listed exceptions are caught, every
  other one passes through.\<close>

definition py_except :: "error list \<Rightarrow> 'a \<Rightarrow> error + 'a \<Rightarrow> error + 'a" where
  "py_except caught dflt m =
     (case m of Inl e \<Rightarrow> if e \<in> set caught then Inr dflt else Inl e | Inr v \<Rightarrow> Inr v)"

definition extract_pesquisa_data :: "json \<Rightarrow> error + (json \<times> json)" where
  "extract_pesquisa_data pesquisa_data =
     py_except [KeyError, IndexError] (JNull, JNull)
       (rbind (py_getitem pesquisa_data ''retorno'') (\<lambda>r.
        rbind (py_getitem r ''pedidos'') (\<lambda>ps.
        rbind (py_getitem0 ps) (\<lambda>p0.
        rbind (py_getitem p0 ''pedido'') (\<lambda>pedido.
        rbind (py_getitem pedido ''nome_vendedor'') (\<lambda>nome_vendedor.
        rbind (py_getitem pedido ''id_vendedor'') (\<lambda>id_vendedor.
        Inr (nome_vendedor, id_vendedor))))))))"

text \<open>
  The nine values \<open>extract_pdv_data\<close> returns. The date and the two totals are computed
  (a str and two floats), so they are \<^verbatim>\<open>None\<close> only in the tuple of nine \<^verbatim>\<open>None\<close>;
  the other six are the document's values, \<open>JNull\<close> being \<^verbatim>\<open>None\<close>.
\<close>

record pdv_fields =
  f_pedido_id :: json
  f_pedido_numero :: json
  f_pedido_dia :: "string option"
  f_total_produtos :: "real option"
  f_total_venda :: "real option"
  f_observacoes :: json
  f_forma_pagamento :: json
  f_cliente_nome :: json
  f_cliente_cpf :: json

definition all_none :: pdv_fields where
  "all_none =
     \<lparr>f_pedido_id = JNull, f_pedido_numero = JNull, f_pedido_dia = None,
      f_total_produtos = None, f_total_venda = None, f_observacoes = JNull,
      f_forma_pagamento = JNull, f_cliente_nome = JNull, f_cliente_cpf = JNull\<rparr>"

text \<open>\<^verbatim>\<open>datetime.strptime(x, '%d/%m/%Y').strftime('%Y-%m-%d')\<close>: the first argument must
  be a str.\<close>

fun py_strptime :: "(string \<Rightarrow> string option) \<Rightarrow> json \<Rightarrow> error + string" where
  "py_strptime sp (JStr s) = (case sp s of Some d \<Rightarrow> Inr d | None \<Rightarrow> Inl ValueError)"
| "py_strptime sp _ = Inl TypeError"

definition extract_pdv_data :: "env \<Rightarrow> json \<Rightarrow> error + pdv_fields" where
  "extract_pdv_data env pdv_data =
     py_except [KeyError, ValueError] all_none
       (rbind (py_getitem pdv_data ''retorno'') (\<lambda>r.
        rbind (py_getitem r ''pedido'') (\<lambda>pedido_pdv.
        rbind (py_getitem pedido_pdv ''id'') (\<lambda>pedido_id.
        rbind (py_getitem pedido_pdv ''numero'') (\<lambda>pedido_numero.
        rbind (rbind (py_getitem pedido_pdv ''data'') (py_strptime (strptime_dmy env)))
          (\<lambda>pedido_dia.
        rbind (rbind (py_getitem pedido_pdv ''totalProdutos'') (py_float (parse_float env)))
          (\<lambda>total_produtos.
        rbind (rbind (py_getitem pedido_pdv ''totalVenda'') (py_float (parse_float env)))
          (\<lambda>total_venda.
        rbind (py_getitem pedido_pdv ''observacoes'') (\<lambda>observacoes.
        rbind (py_getitem pedido_pdv ''formaPagamento'') (\<lambda>forma_pagamento.
        rbind (rbind (py_getitem pedido_pdv ''contato'') (\<lambda>c. py_getitem c ''nome''))
          (\<lambda>cliente_nome.
        rbind (rbind (py_getitem pedido_pdv ''contato'') (\<lambda>c. py_getitem c ''cpfCnpj''))
          (\<lambda>cliente_cpf.
        Inr \<lparr>f_pedido_id = pedido_id, f_pedido_numero = pedido_numero,
             f_pedido_dia = Some pedido_dia, f_total_produtos = Some total_produtos,
             f_total_venda = Some total_venda, f_observacoes = observacoes,
             f_forma_pagamento = forma_pagamento, f_cliente_nome = cliente_nome,
             f_cliente_cpf = cliente_cpf\<rparr>))))))))))))"

section \<open>The correlator\<close>

text \<open>
  A blob of the bucket: its metadata (\<^verbatim>\<open>None\<close> or a dict of strings) and what
  \<^verbatim>\<open>json.loads(blob.download_as_string())\<close> does: it returns a document, raises one of
  the two exceptions \<open>download_json_file\<close> catches (NotFound, JSONDecodeError), or
  raises another one.
\<close>

datatype download = Parsed json | NotFoundOrDecodeError | DownloadRaises error

record blob =
  blob_metadata :: "(string \<times> string) list option"
  blob_download :: download

fun download_json_file :: "blob \<Rightarrow> error + json" where
  "download_json_file b =
     (case blob_download b of
        Parsed json_data \<Rightarrow> Inr json_data
      | NotFoundOrDecodeError \<Rightarrow> Inr JNull
      | DownloadRaises e \<Rightarrow> Inl e)"

text \<open>The dict \<open>data\<close> of \<open>download_json_files\<close>.\<close>

record correlated =
  pesquisa :: json
  pdv :: json
  produto :: "string \<rightharpoonup> json"
  corr_timestamp :: "datetime option"

text \<open>\<^verbatim>\<open>datetime.fromisoformat(s.replace('Z', '+00:00'))\<close>.\<close>

definition replace_Z :: "string \<Rightarrow> string" where
  "replace_Z s = concat (map (\<lambda>c. if c = CHR ''Z'' then ''+00:00'' else [c]) s)"

definition py_fromisoformat :: "env \<Rightarrow> string \<Rightarrow> error + datetime" where
  "py_fromisoformat env s =
     (case fromisoformat env (replace_Z s) of Some dt \<Rightarrow> Inr dt | None \<Rightarrow> Inl ValueError)"

text \<open>One turn of the loop over the blobs.\<close>

definition visit_blob :: "env \<Rightarrow> string \<Rightarrow> blob \<Rightarrow> correlated \<Rightarrow> error + correlated" where
  "visit_blob env uuid b data =
     (case blob_metadata b of
        None \<Rightarrow> Inr data
      | Some metadata \<Rightarrow>
          if metadata \<noteq> [] \<and> map_of metadata ''UUID'' = Some uuid then
            (case map_of metadata ''Data-Type'' of
               None \<Rightarrow> Inl KeyError
             | Some data_type \<Rightarrow>
                 if data_type = ''pedidos.pesquisa'' then
                   rbind (download_json_file b) (\<lambda>j. Inr (data\<lparr>pesquisa := j\<rparr>))
                 else if data_type = ''pdv.pedido'' then
                   rbind (download_json_file b) (\<lambda>j.
                   let data1 = data\<lparr>pdv := j\<rparr> in
                   (case map_of metadata ''Processing-Timestamp'' of
                      None \<Rightarrow> Inr data1
                    | Some processing_timestamp_str \<Rightarrow>
                        if processing_timestamp_str \<noteq> [] then
                          rbind (py_fromisoformat env processing_timestamp_str)
                            (\<lambda>ts. Inr (data1\<lparr>corr_timestamp := Some ts\<rparr>))
                        else Inr data1))
                 else if data_type = ''produto'' then
                   (case map_of metadata ''Produto-ID'' of
                      None \<Rightarrow> Inl KeyError
                    | Some produto_id \<Rightarrow>
                        rbind (download_json_file b)
                          (\<lambda>j. Inr (data\<lparr>produto := (produto data)(produto_id \<mapsto> j)\<rparr>)))
                 else Inr data)
          else Inr data)"

fun visit_blobs :: "env \<Rightarrow> string \<Rightarrow> blob list \<Rightarrow> correlated \<Rightarrow> error + correlated" where
  "visit_blobs env uuid [] data = Inr data"
| "visit_blobs env uuid (b # blobs) data =
     rbind (visit_blob env uuid b data) (visit_blobs env uuid blobs)"

text \<open>\<open>bucket\<close> is what \<^verbatim>\<open>get_bucket\<close> and \<^verbatim>\<open>list_blobs\<close> give: the blobs, or an
  exception of the storage client.\<close>

definition download_json_files :: "env \<Rightarrow> (error + blob list) \<Rightarrow> string \<Rightarrow> error + correlated" where
  "download_json_files env bucket uuid =
     rbind bucket (\<lambda>blobs.
     visit_blobs env uuid blobs
       \<lparr>pesquisa = JNull, pdv = JNull, produto = Map.empty, corr_timestamp = None\<rparr>)"

section \<open>The warehouse writer\<close>

text \<open>
  The two tables of the warehouse. The warehouse is the service behind
  \<^verbatim>\<open>bigquery_client\<close>; its interface (specification, sections 4.4 and 6) is that
  \<^verbatim>\<open>insert_rows_json\<close> appends the rows it is given and returns a list of row errors,
  empty on success. What the service does during one call of \<open>load_data_to_bigquery\<close> is
  a parameter: whether a provisioning call (dataset, tables, schema and key update)
  raises, and for each of the two inserts whether it appends the rows, returns row errors
  (nothing is appended) or raises.
\<close>

record warehouse =
  sales_table :: "sales_row list"
  sales_items_table :: "sales_items_row list"

datatype insert_outcome = Appended | RowErrors | InsertRaises

record service =
  provisioning_raises :: bool
  sales_insert :: insert_outcome
  items_insert :: insert_outcome

definition load_data_to_bigquery ::
  "service \<Rightarrow> warehouse \<Rightarrow> sales_row \<Rightarrow> sales_items_row list \<Rightarrow> warehouse" where
  "load_data_to_bigquery svc wh sales_row sales_items_rows =
     (if provisioning_raises svc then wh
      else
        (case sales_insert svc of
           InsertRaises \<Rightarrow> wh
         | o1 \<Rightarrow>
             let wh1 = (if o1 = Appended
                        then wh\<lparr>sales_table := sales_table wh @ [sales_row]\<rparr> else wh)
             in
             (case items_insert svc of
                Appended \<Rightarrow> wh1\<lparr>sales_items_table := sales_items_table wh1 @ sales_items_rows\<rparr>
              | _ \<Rightarrow> wh1)))"

section \<open>The pipeline driver\<close>

text \<open>
  A message: its payload decoded as UTF-8 (\<open>None\<close> when it does not decode) and its
  attributes. The state a handler changes: the warehouse and the number of times the
  message has been acknowledged.
\<close>

record message =
  data_utf8 :: "string option"
  attributes :: "(string \<times> string) list"

record state =
  wh :: warehouse
  acks :: nat

definition ack :: "state \<Rightarrow> state" where
  "ack st = st\<lparr>acks := acks st + 1\<rparr>"

text \<open>
  The body of the \<^verbatim>\<open>try\<close> of \<open>process_message\<close>, in two parts: the correlation, and
  \<open>handle_documents\<close>, what is done with the correlated documents. The result is the
  warehouse the body leaves, or the exception that reaches the handler. The program
  writes \<^verbatim>\<open>pedido_id\<close> and \<^verbatim>\<open>pedido_numero\<close> into the item dicts of the order document
  in place; \<open>prepare_sales_row\<close>, which is given the order after that, reads its
  \<^verbatim>\<open>id\<close> and \<^verbatim>\<open>numero\<close> only, so the model passes it the order as correlated.
\<close>

definition handle_documents ::
  "(nat \<Rightarrow> nat \<Rightarrow> nat \<Rightarrow> error + time_of_day) \<Rightarrow> env \<Rightarrow> service \<Rightarrow> string \<Rightarrow> correlated
   \<Rightarrow> warehouse \<Rightarrow> error + warehouse" where
  "handle_documents tc env svc uuid data w =
     (let pesquisa_data = pesquisa data; pdv_data = pdv data; produto_data = produto data in
      (case corr_timestamp data of
         Some processing_timestamp \<Rightarrow>
           if py_truthy pesquisa_data \<and> py_truthy pdv_data then
             rbind (extract_pesquisa_data pesquisa_data) (\<lambda>(nome_vendedor, id_vendedor).
             rbind (extract_pdv_data env pdv_data) (\<lambda>f.
             (case f_pedido_dia f of
                Some pedido_dia \<Rightarrow>
                  if py_truthy nome_vendedor \<and> py_truthy id_vendedor
                     \<and> py_truthy (f_pedido_id f) \<and> py_truthy (f_pedido_numero f)
                     \<and> pedido_dia \<noteq> []
                  then
                    rbind (rbind (py_getitem pdv_data ''retorno'')
                             (\<lambda>r. py_getitem r ''pedido''))
                      (\<lambda>pedido_pdv.
                    rbind (process_pedido_items tc env pedido_pdv produto_data
                             processing_timestamp pedido_dia uuid nome_vendedor id_vendedor
                             (f_cliente_nome f) (f_cliente_cpf f))
                      (\<lambda>(valor, pontos, sales_items_rows).
                    rbind (rbind (py_getitem pdv_data ''retorno'')
                             (\<lambda>r. py_getitem r ''pedido''))
                      (\<lambda>pedido_pdv2.
                    rbind (prepare_sales_row env (length sales_items_rows) uuid
                             processing_timestamp pedido_dia pedido_pdv2 nome_vendedor
                             id_vendedor (f_cliente_nome f) (f_cliente_cpf f) valor pontos)
                      (\<lambda>sales_row.
                    Inr (load_data_to_bigquery svc w sales_row sales_items_rows)))))
                  else Inr w
              | None \<Rightarrow> Inr w)))
           else Inr w
       | None \<Rightarrow> Inr w))"

definition process_message_try ::
  "(nat \<Rightarrow> nat \<Rightarrow> nat \<Rightarrow> error + time_of_day) \<Rightarrow> env \<Rightarrow> (error + blob list) \<Rightarrow> service
   \<Rightarrow> string \<Rightarrow> warehouse \<Rightarrow> error + warehouse" where
  "process_message_try tc env bucket svc uuid w =
     rbind (download_json_files env bucket uuid) (\<lambda>data.
     handle_documents tc env svc uuid data w)"

text \<open>
  \<open>process_message\<close>: the payload is decoded before the \<^verbatim>\<open>try\<close>, so a payload that
  does not decode raises out of the function (UnicodeDecodeError, a ValueError) before
  anything else happens. Every exception of the body is caught and logged, and the
  message is acknowledged after the \<^verbatim>\<open>try\<close>. The result is the exception that leaves
  the function, if any, and the state.
\<close>

definition process_message ::
  "(nat \<Rightarrow> nat \<Rightarrow> nat \<Rightarrow> error + time_of_day) \<Rightarrow> env \<Rightarrow> (error + blob list) \<Rightarrow> service
   \<Rightarrow> message \<Rightarrow> state \<Rightarrow> error option \<times> state" where
  "process_message tc env bucket svc msg st =
     (case data_utf8 msg of
        None \<Rightarrow> (Some ValueError, st)
      | Some uuid \<Rightarrow>
          (case process_message_try tc env bucket svc uuid (wh st) of
             Inr w \<Rightarrow> (None, ack (st\<lparr>wh := w\<rparr>))
           | Inl e \<Rightarrow> (None, ack st)))"

text \<open>
  \<open>pubsub_callback\<close>, the callback \<open>main\<close> subscribes. With a timestamp attribute it
  calls \<^verbatim>\<open>process_message(message, processing_timestamp)\<close>: two arguments for a function
  of one parameter, which raises TypeError before the body of \<open>process_message\<close> runs.
  \<open>call\<close> is that rule of a Python call: \<open>n\<close> positional arguments for a function of
  \<open>k\<close> parameters.
\<close>

definition call :: "nat \<Rightarrow> nat \<Rightarrow> (error option \<times> state) \<Rightarrow> state \<Rightarrow> error option \<times> state" where
  "call k n body st = (if n = k then body else (Some TypeError, st))"

definition pubsub_callback ::
  "(nat \<Rightarrow> nat \<Rightarrow> nat \<Rightarrow> error + time_of_day) \<Rightarrow> env \<Rightarrow> (error + blob list) \<Rightarrow> service
   \<Rightarrow> message \<Rightarrow> state \<Rightarrow> state" where
  "pubsub_callback tc env bucket svc msg st =
     (let attempt =
        (case map_of (attributes msg) ''Processing-Timestamp'' of
           Some processing_timestamp_str \<Rightarrow>
             if processing_timestamp_str \<noteq> [] then
               (case py_fromisoformat env processing_timestamp_str of
                  Inl e \<Rightarrow> (Some e, st)
                | Inr processing_timestamp \<Rightarrow>
                    call 1 2 (process_message tc env bucket svc msg st) st)
             else (None, ack st)
         | None \<Rightarrow> (None, ack st))
      in (case attempt of
            (None, st1) \<Rightarrow> st1
          | (Some e, st1) \<Rightarrow> ack st1))"

section \<open>The scenario of the specification\<close>

text \<open>
  The end-to-end scenario of the specification's section 8, written out: the key
  \<^verbatim>\<open>abc123\<close>, loyalty rate 0.02, morning rate 0.03, happy-hour rate 0, the processing
  timestamp 2024-03-01T07:30:00Z, a survey document, an order document with two line
  items and a product document for the first of them only. The library functions of the
  environment are given on the strings the scenario uses, and of the decimal digits
  beyond ASCII the table has the Arabic-Indic ones, U+0660 to U+0669.
\<close>

definition arabic_indic :: "nat \<Rightarrow> nat option" where
  "arabic_indic c = (if 1632 \<le> c \<and> c \<le> 1641 then Some (c - 1632) else None)"

definition is_decimal :: "nat list \<Rightarrow> bool" where
  "is_decimal s =
     (let d1 = takeWhile (is_digit arabic_indic) s; r = dropWhile (is_digit arabic_indic) s in
      d1 \<noteq> [] \<and> (case r of c # d2 \<Rightarrow> c = dot \<and> d2 \<noteq> [] \<and> list_all (is_digit arabic_indic) d2
                    | [] \<Rightarrow> False))"

definition scn_env :: env where
  "scn_env =
     \<lparr>PROJECT_ID = Some ''proj'', SOURCE_IDENTIFIER = Some ''tiny'',
      VERSION_CONTROL = Some ''v1'',
      FIDELIDADE_MULTIPLIER = 2 / 100, MORNING_MULTIPLIER = 3 / 100,
      HAPPYHOUR_MULTIPLIER = 0,
      parse_float = (\<lambda>s. if is_decimal (utf8_decode s)
                          then Some (decimal_value arabic_indic (utf8_decode s)) else None),
      unicode_decimal = arabic_indic,
      float_of_match = decimal_value arabic_indic,
      strptime_dmy = (\<lambda>s. if s = ''01/03/2024'' then Some ''2024-03-01'' else None),
      fromisoformat = (\<lambda>s. if s = ''2024-03-01T07:30:00+00:00''
                            then Some (utc_datetime 2024 3 1 7 30 0) else None),
      tz_history = (\<lambda>t. - 10800),
      clock = (\<lambda>n. if n = 0 then ''2024-03-01T04:30:00-03:00''
                   else ''2024-03-01T04:30:01-03:00'')\<rparr>"

text \<open>
  A notes text with two markers, 0.05 in ASCII digits and 0.01 in Arabic-Indic digits:
  the bytes 217, 160 encode the digit zero U+0660 and the bytes 217, 161 the digit one
  U+0661.
\<close>

definition arabic_indic_notes :: string where
  "arabic_indic_notes =
     ''{{0.05}} {{'' @ map char_of [217, 160, 46, 217, 160, 217, 161 :: nat] @ ''}}''"

definition scn_timestamp :: datetime where
  "scn_timestamp = utc_datetime 2024 3 1 7 30 0"

definition scn_item1 :: json where
  "scn_item1 =
     JObj [(''idProduto'', JStr ''p1''), (''descricao'', JStr ''Cafe''),
           (''quantidade'', JStr ''2.00''), (''valor'', JStr ''10.00''),
           (''desconto'', JStr ''0.00'')]"

definition scn_item2 :: json where
  "scn_item2 =
     JObj [(''idProduto'', JStr ''p2''), (''descricao'', JStr ''Pao''),
           (''quantidade'', JStr ''1.00''), (''valor'', JStr ''5.00''),
           (''desconto'', JStr ''0.00'')]"

definition scn_pedido :: json where
  "scn_pedido =
     JObj [(''id'', JStr ''1001''), (''numero'', JStr ''77''), (''data'', JStr ''01/03/2024''),
           (''totalProdutos'', JStr ''25.00''), (''totalVenda'', JStr ''25.00''),
           (''observacoes'', JStr []), (''formaPagamento'', JStr ''dinheiro''),
           (''contato'', JObj [(''nome'', JStr ''Maria''), (''cpfCnpj'', JStr ''123'')]),
           (''itens'', JArr [scn_item1, scn_item2])]"

definition scn_pdv :: json where
  "scn_pdv = JObj [(''retorno'', JObj [(''pedido'', scn_pedido)])]"

definition scn_pesquisa :: json where
  "scn_pesquisa =
     JObj [(''retorno'', JObj [(''pedidos'',
       JArr [JObj [(''pedido'',
         JObj [(''nome_vendedor'', JStr ''Ana''), (''id_vendedor'', JStr ''7'')])]])])]"

definition scn_produto1 :: json where
  "scn_produto1 =
     JObj [(''produto'', JObj [(''preco_custo'', JStr ''4.00''),
                               (''obs'', JStr ''promo {{0.10}}''),
                               (''categoria'', JStr ''Bebidas >> Cafe'')])]"

definition scn_produto_data :: "string \<rightharpoonup> json" where
  "scn_produto_data = [''p1'' \<mapsto> scn_produto1]"

definition scn_blob_pesquisa :: blob where
  "scn_blob_pesquisa =
     \<lparr>blob_metadata = Some [(''UUID'', ''abc123''), (''Data-Type'', ''pedidos.pesquisa'')],
      blob_download = Parsed scn_pesquisa\<rparr>"

definition scn_blob_pdv :: blob where
  "scn_blob_pdv =
     \<lparr>blob_metadata = Some [(''UUID'', ''abc123''), (''Data-Type'', ''pdv.pedido''),
                            (''Processing-Timestamp'', ''2024-03-01T07:30:00Z'')],
      blob_download = Parsed scn_pdv\<rparr>"

definition scn_blob_produto1 :: blob where
  "scn_blob_produto1 =
     \<lparr>blob_metadata = Some [(''UUID'', ''abc123''), (''Data-Type'', ''produto''),
                            (''Produto-ID'', ''p1'')],
      blob_download = Parsed scn_produto1\<rparr>"

definition scn_message :: message where
  "scn_message =
     \<lparr>data_utf8 = Some ''abc123'',
      attributes = [(''Processing-Timestamp'', ''2024-03-01T07:30:00Z'')]\<rparr>"

definition svc_ok :: service where
  "svc_ok = \<lparr>provisioning_raises = False, sales_insert = Appended, items_insert = Appended\<rparr>"

definition empty_state :: state where
  "empty_state = \<lparr>wh = \<lparr>sales_table = [], sales_items_table = []\<rparr>, acks = 0\<rparr>"

text \<open>
  The scenario's environment with a happy-hour rate that is not 0, and a processing
  timestamp that is Friday 06:00 in Sao Paulo (09:00 UTC on 1 March 2024).
\<close>

definition promo_env :: env where
  "promo_env = scn_env\<lparr>HAPPYHOUR_MULTIPLIER := 5 / 100\<rparr>"

definition friday_0600 :: datetime where
  "friday_0600 = utc_datetime 2024 3 1 9 0 0"

text \<open>
  Following the specification's words (section 4.2): the morning window is the local
  time in [05:00, 10:00), the happy-hour window is Friday with the local time in
  [18:00, 22:00).
\<close>

definition morning_window :: "time_of_day \<Rightarrow> bool" where
  "morning_window t =
     (time_le \<lparr>hour = 5, minute = 0, second = 0, microsecond = 0\<rparr> t
      \<and> time_lt t \<lparr>hour = 10, minute = 0, second = 0, microsecond = 0\<rparr>)"

definition happyhour_window :: "int \<Rightarrow> time_of_day \<Rightarrow> bool" where
  "happyhour_window wd t =
     (wd = 4 \<and> time_le \<lparr>hour = 18, minute = 0, second = 0, microsecond = 0\<rparr> t
      \<and> time_lt t \<lparr>hour = 22, minute = 0, second = 0, microsecond = 0\<rparr>)"

text \<open>
  Rows with the header values of the scenario's documents: an item row of the first
  item, and the order row for a given value, points and time of processing.
\<close>

definition scn_local_time :: datetime where
  "scn_local_time =
     \<lparr>ordinal = 738946, dt_hour = 4, dt_minute = 30, dt_second = 0, dt_microsecond = 0,
      utcoffset = - 10800\<rparr>"

definition scn_item_row :: sales_items_row where
  "scn_item_row =
     \<lparr>item_uuid = ''abc123'', item_timestamp = scn_local_time,
      item_pedido_dia = ''2024-03-01'', item_pedido_id = JStr ''1001'',
      item_pedido_numero = JStr ''77'', item_cliente_nome = JStr ''Maria'',
      item_cliente_cpf = JStr ''123'', item_vendedor_nome = JStr ''Ana'',
      item_vendedor_id = JStr ''7'', produto_idProduto = JStr ''p1'',
      produto_descricao = JStr ''Cafe'', produto_category_first = ''Bebidas'',
      produto_category_second = ''Cafe'', produto_quantidade = 2, produto_valor = 10,
      produto_valor_total = 20, produto_multiplier = 1 / 10,
      item_fidelidade_multiplier = 2 / 100, special_multiplier = 0,
      final_multiplier = 12 / 100, produto_pontos = 12 / 5,
      item_project_id = Some ''proj'', item_source_identifier = Some ''tiny'',
      item_version_control = Some ''v1'',
      item_processed_timestamp = ''2024-03-01T04:30:00-03:00''\<rparr>"

definition scn_sales_row :: "real \<Rightarrow> real \<Rightarrow> string \<Rightarrow> sales_row" where
  "scn_sales_row valor pontos stamp =
     \<lparr>row_uuid = ''abc123'', row_timestamp = scn_local_time,
      row_pedido_dia = ''2024-03-01'', row_pedido_id = JStr ''1001'',
      row_pedido_numero = JStr ''77'', row_cliente_nome = JStr ''Maria'',
      row_cliente_cpf = JStr ''123'', row_vendedor_nome = JStr ''Ana'',
      row_vendedor_id = JStr ''7'', pedido_valor = valor,
      row_fidelidade_multiplier = 2 / 100, pedido_pontos = pontos,
      row_project_id = Some ''proj'', row_source_identifier = Some ''tiny'',
      row_version_control = Some ''v1'', row_processed_timestamp = stamp\<rparr>"

text \<open>The expression \<^verbatim>\<open>pdv_data['retorno']['pedido']\<close>.\<close>

definition pedido_of :: "json \<Rightarrow> error + json" where
  "pedido_of pdv_data = rbind (py_getitem pdv_data ''retorno'') (\<lambda>r. py_getitem r ''pedido'')"

text \<open>
  Two variants of the scenario's order document: one whose total is \<^verbatim>\<open>null\<close>, one
  without the payment method.
\<close>

definition scn_pdv_null_total :: json where
  "scn_pdv_null_total =
     JObj [(''retorno'', JObj [(''pedido'',
       JObj [(''id'', JStr ''1001''), (''numero'', JStr ''77''), (''data'', JStr ''01/03/2024''),
             (''totalProdutos'', JNull), (''totalVenda'', JStr ''25.00''),
             (''observacoes'', JStr []), (''formaPagamento'', JStr ''dinheiro''),
             (''contato'', JObj [(''nome'', JStr ''Maria''), (''cpfCnpj'', JStr ''123'')]),
             (''itens'', JArr [scn_item1, scn_item2])])])]"

definition scn_pdv_no_payment :: json where
  "scn_pdv_no_payment =
     JObj [(''retorno'', JObj [(''pedido'',
       JObj [(''id'', JStr ''1001''), (''numero'', JStr ''77''), (''data'', JStr ''01/03/2024''),
             (''totalProdutos'', JStr ''25.00''), (''totalVenda'', JStr ''25.00''),
             (''observacoes'', JStr []),
             (''contato'', JObj [(''nome'', JStr ''Maria''), (''cpfCnpj'', JStr ''123'')]),
             (''itens'', JArr [scn_item1, scn_item2])])])]"

definition scn_blob_pdv_no_payment :: blob where
  "scn_blob_pdv_no_payment =
     \<lparr>blob_metadata = Some [(''UUID'', ''abc123''), (''Data-Type'', ''pdv.pedido''),
                            (''Processing-Timestamp'', ''2024-03-01T07:30:00Z'')],
      blob_download = Parsed scn_pdv_no_payment\<rparr>"

section \<open>Verified properties\<close>

subsection \<open>The scan finds exactly the markers\<close>

lemma not_digit_dot [simp]:
  "\<not> is_digit ud dot" "\<not> is_digit ud rbrace" "\<not> is_digit ud lbrace"
  by (simp_all add: is_digit_def to_decimal_def dot_def rbrace_def lbrace_def)

lemma braces_dot_distinct [simp]:
  "dot \<noteq> lbrace" "rbrace \<noteq> lbrace" "lbrace \<noteq> dot" "lbrace \<noteq> rbrace"
  by (simp_all add: dot_def rbrace_def lbrace_def)

lemma match_here_sound:
  assumes "match_here ud s = Some (g, rest)"
  shows "\<exists>d1 d2. d1 \<noteq> [] \<and> d2 \<noteq> [] \<and> list_all (is_digit ud) d1 \<and> list_all (is_digit ud) d2
           \<and> s = [lbrace, lbrace] @ d1 @ [dot] @ d2 @ [rbrace, rbrace] @ rest
           \<and> g = d1 @ [dot] @ d2"
proof -
  from assms obtain r0 r2 where
    s: "s = lbrace # lbrace # r0" and
    d1: "takeWhile (is_digit ud) r0 \<noteq> []" and
    r1: "dropWhile (is_digit ud) r0 = dot # r2" and
    d2: "takeWhile (is_digit ud) r2 \<noteq> []" and
    r3: "dropWhile (is_digit ud) r2 = rbrace # rbrace # rest" and
    g: "g = takeWhile (is_digit ud) r0 @ [dot] @ takeWhile (is_digit ud) r2"
    by (auto simp: match_here_def Let_def split: list.splits if_splits)
  have r0: "r0 = takeWhile (is_digit ud) r0 @ dot # r2"
    using takeWhile_dropWhile_id [of "is_digit ud" r0] r1 by simp
  have r2: "r2 = takeWhile (is_digit ud) r2 @ rbrace # rbrace # rest"
    using takeWhile_dropWhile_id [of "is_digit ud" r2] r3 by simp
  have a1: "list_all (is_digit ud) (takeWhile (is_digit ud) r0)"
    by (auto simp: list_all_iff dest: set_takeWhileD)
  have a2: "list_all (is_digit ud) (takeWhile (is_digit ud) r2)"
    by (auto simp: list_all_iff dest: set_takeWhileD)
  have "s = [lbrace, lbrace] @ takeWhile (is_digit ud) r0 @ [dot]
              @ takeWhile (is_digit ud) r2 @ [rbrace, rbrace] @ rest"
    using s r0 r2 by simp
  with d1 d2 a1 a2 g show ?thesis by blast
qed

lemma match_here_complete:
  assumes "d1 \<noteq> []" "d2 \<noteq> []" "list_all (is_digit ud) d1" "list_all (is_digit ud) d2"
  shows "match_here ud ([lbrace, lbrace] @ d1 @ [dot] @ d2 @ [rbrace, rbrace] @ rest)
         = Some (d1 @ [dot] @ d2, rest)"
proof -
  have t1: "takeWhile (is_digit ud) (d1 @ dot # d2 @ rbrace # rbrace # rest) = d1"
    using assms(3) by (simp add: takeWhile_append2 list_all_iff)
  have dr1: "dropWhile (is_digit ud) (d1 @ dot # d2 @ rbrace # rbrace # rest)
               = dot # d2 @ rbrace # rbrace # rest"
    using assms(3) by (simp add: dropWhile_append2 list_all_iff)
  have t2: "takeWhile (is_digit ud) (d2 @ rbrace # rbrace # rest) = d2"
    using assms(4) by (simp add: takeWhile_append2 list_all_iff)
  have dr2: "dropWhile (is_digit ud) (d2 @ rbrace # rbrace # rest) = rbrace # rbrace # rest"
    using assms(4) by (simp add: dropWhile_append2 list_all_iff)
  show ?thesis
    using assms(1,2) by (simp add: match_here_def t1 dr1 t2 dr2)
qed

lemma match_here_braces:
  "match_here ud m = Some (g, rest) \<Longrightarrow> \<exists>m'. m = lbrace # lbrace # m'"
  by (auto simp: match_here_def split: list.splits if_splits)

lemma occurs_Nil [simp]: "\<not> occurs ud g []"
  by (auto simp: occurs_def match_here_def)

lemma occurs_Cons_None:
  "match_here ud (c # cs) = None \<Longrightarrow> occurs ud g (c # cs) = occurs ud g cs"
  unfolding occurs_def
  apply (rule iffI)
   apply (elim exE conjE)
  subgoal for pre m rest
    by (cases pre) auto
  apply (elim exE conjE)
  subgoal for pre m rest
    by (rule exI [of _ "c # pre"]) auto
  done

lemma no_brace_inside:
  assumes u: "lbrace \<notin> set u" and eq: "u @ rest = pre @ lbrace # m'"
  shows "\<exists>p. rest = p @ lbrace # m'"
proof -
  from eq obtain us where
    "(u = pre @ us \<and> us @ rest = lbrace # m') \<or> (u @ us = pre \<and> rest = us @ lbrace # m')"
    by (auto simp: append_eq_append_conv2)
  then show ?thesis
  proof
    assume a: "u = pre @ us \<and> us @ rest = lbrace # m'"
    show ?thesis
    proof (cases us)
      case Nil with a show ?thesis by (intro exI [of _ "[]"]) simp
    next
      case (Cons x xs)
      with a have "x = lbrace" by simp
      with a Cons u show ?thesis by auto
    qed
  next
    assume "u @ us = pre \<and> rest = us @ lbrace # m'"
    then show ?thesis by blast
  qed
qed

lemma occurs_Cons_Some:
  assumes m: "match_here ud (c # cs) = Some (g, rest)"
  shows "occurs ud h (c # cs) \<longleftrightarrow> h = g \<or> occurs ud h rest"
proof -
  from match_here_sound [OF m] obtain d1 d2 where
    d: "d1 \<noteq> []" "d2 \<noteq> []" "list_all (is_digit ud) d1" "list_all (is_digit ud) d2" and
    s: "c # cs = [lbrace, lbrace] @ d1 @ [dot] @ d2 @ [rbrace, rbrace] @ rest" and
    g: "g = d1 @ [dot] @ d2"
    by blast
  define u where "u = d1 @ [dot] @ d2 @ [rbrace, rbrace]"
  have nb: "lbrace \<notin> set u"
    using d(3,4) by (auto simp: u_def list_all_iff)
  have une0: "u \<noteq> []" using d(1) by (simp add: u_def)
  then have "hd u \<in> set u" by (rule hd_in_set)
  with nb have "hd u \<noteq> lbrace" by metis
  with une0 have une: "u \<noteq> []" "hd u \<noteq> lbrace" by simp_all
  have cs: "c = lbrace" "cs = lbrace # u @ rest" using s by (simp_all add: u_def)
  show ?thesis
  proof
    assume "occurs ud h (c # cs)"
    then obtain pre mm r where p: "c # cs = pre @ mm" and mm: "match_here ud mm = Some (h, r)"
      by (auto simp: occurs_def)
    from match_here_braces [OF mm] obtain m' where m': "mm = lbrace # lbrace # m'" by blast
    show "h = g \<or> occurs ud h rest"
    proof (cases pre)
      case Nil
      with p m mm show ?thesis by simp
    next
      case (Cons x pre1)
      with p cs have e1: "lbrace # u @ rest = pre1 @ mm" by auto
      show ?thesis
      proof (cases pre1)
        case Nil
        with e1 m' have "u @ rest = lbrace # m'" by simp
        with une have False by (cases u) auto
        then show ?thesis ..
      next
        case (Cons y pre2)
        with e1 m' have "u @ rest = pre2 @ lbrace # (lbrace # m')" by simp
        from no_brace_inside [OF nb this] obtain p' where "rest = p' @ mm" using m' by auto
        with mm show ?thesis by (auto simp: occurs_def)
      qed
    qed
  next
    assume "h = g \<or> occurs ud h rest"
    then show "occurs ud h (c # cs)"
    proof
      assume "h = g"
      with m have "c # cs = [] @ (c # cs) \<and> match_here ud (c # cs) = Some (h, rest)" by simp
      then show ?thesis unfolding occurs_def by blast
    next
      assume "occurs ud h rest"
      then obtain pre mm r where "rest = pre @ mm" "match_here ud mm = Some (h, r)"
        by (auto simp: occurs_def)
      then show ?thesis unfolding occurs_def cs
        by (intro exI [of _ "lbrace # lbrace # u @ pre"] exI [of _ mm] exI [of _ r]) simp
    qed
  qed
qed

lemma set_findall: "set (findall ud s) = {g. occurs ud g s}"
proof (induction ud s rule: findall.induct)
  case 1
  then show ?case by simp
next
  case (2 ud c cs)
  show ?case
  proof (cases "match_here ud (c # cs)")
    case None
    with 2 show ?thesis by (auto simp: occurs_Cons_None)
  next
    case (Some a)
    obtain g rest where a: "a = (g, rest)" by (cases a)
    with Some 2 show ?thesis by (auto simp: occurs_Cons_Some)
  qed
qed

lemma occurs_iff_marker:
  "occurs ud g obs \<longleftrightarrow> (\<exists>d1 d2 pre post. g = d1 @ [dot] @ d2 \<and>
        obs = pre @ [lbrace, lbrace] @ d1 @ [dot] @ d2 @ [rbrace, rbrace] @ post
        \<and> d1 \<noteq> [] \<and> d2 \<noteq> [] \<and> list_all (is_digit ud) d1 \<and> list_all (is_digit ud) d2)"
proof
  assume "occurs ud g obs"
  then obtain pre m rest where o: "obs = pre @ m" and m: "match_here ud m = Some (g, rest)"
    by (auto simp: occurs_def)
  from match_here_sound [OF m] o show "\<exists>d1 d2 pre post. g = d1 @ [dot] @ d2 \<and>
        obs = pre @ [lbrace, lbrace] @ d1 @ [dot] @ d2 @ [rbrace, rbrace] @ post
        \<and> d1 \<noteq> [] \<and> d2 \<noteq> [] \<and> list_all (is_digit ud) d1 \<and> list_all (is_digit ud) d2"
    by blast
next
  assume "\<exists>d1 d2 pre post. g = d1 @ [dot] @ d2 \<and>
        obs = pre @ [lbrace, lbrace] @ d1 @ [dot] @ d2 @ [rbrace, rbrace] @ post
        \<and> d1 \<noteq> [] \<and> d2 \<noteq> [] \<and> list_all (is_digit ud) d1 \<and> list_all (is_digit ud) d2"
  then obtain d1 d2 pre post where g: "g = d1 @ [dot] @ d2" and
    o: "obs = pre @ ([lbrace, lbrace] @ d1 @ [dot] @ d2 @ [rbrace, rbrace] @ post)" and
    d: "d1 \<noteq> []" "d2 \<noteq> []" "list_all (is_digit ud) d1" "list_all (is_digit ud) d2"
    by auto
  from match_here_complete [OF d, of post] g
  have "match_here ud ([lbrace, lbrace] @ d1 @ [dot] @ d2 @ [rbrace, rbrace] @ post)
        = Some (g, post)" by simp
  with o show "occurs ud g obs" unfolding occurs_def by blast
qed

lemma marker_texts_findall: "marker_texts ud obs = set (findall ud obs)"
  unfolding marker_texts_def set_findall
  by (auto simp: occurs_iff_marker)

lemma py_min_Min: "xs \<noteq> [] \<Longrightarrow> py_min xs = Min (set xs)"
  using Min.set_eq_fold [of "hd xs" "tl xs"] by (simp add: py_min_def)

lemma extract_multiplier_Min:
  "extract_multiplier ud fl (JStr obs) =
     Inr (if marker_texts ud (utf8_decode obs) = {} then 0
          else Min (fl ` marker_texts ud (utf8_decode obs)))"
  by (simp add: marker_texts_findall py_min_Min Let_def)

lemma extract_multiplier_rounded:
  fixes rnd :: "real \<Rightarrow> 'f::{linorder,zero}"
  assumes "mono rnd"
  shows "extract_multiplier ud (\<lambda>g. rnd (decimal_value ud g)) (JStr obs) =
     Inr (if marker_values ud (utf8_decode obs) = {} then 0
          else rnd (Min (marker_values ud (utf8_decode obs))))"
proof -
  let ?M = "marker_texts ud (utf8_decode obs)"
  have fin: "finite ?M" by (simp add: marker_texts_findall)
  have img: "(\<lambda>g. rnd (decimal_value ud g)) ` ?M = rnd ` marker_values ud (utf8_decode obs)"
    by (simp add: marker_values_def image_image)
  note em = extract_multiplier_Min [of ud "\<lambda>g. rnd (decimal_value ud g)" obs]
  show ?thesis
  proof (cases "?M = {}")
    case True
    with em show ?thesis by (simp add: marker_values_def del: extract_multiplier.simps)
  next
    case False
    then have ne: "marker_values ud (utf8_decode obs) \<noteq> {}" by (simp add: marker_values_def)
    have f2: "finite (marker_values ud (utf8_decode obs))"
      using fin by (simp add: marker_values_def)
    from mono_Min_commute [OF assms f2 ne]
    have "rnd (Min (marker_values ud (utf8_decode obs)))
          = Min (rnd ` marker_values ud (utf8_decode obs))" .
    with False ne img em show ?thesis by (simp del: extract_multiplier.simps)
  qed
qed

lemma utf8_spec_example:
  "utf8_decode ''desc {{0.10}} extra {{0.05}}''
   = [100, 101, 115, 99, 32, lbrace, lbrace, 48, dot, 49, 48, rbrace, rbrace, 32,
      101, 120, 116, 114, 97, 32, lbrace, lbrace, 48, dot, 48, 53, rbrace, rbrace]"
  by (simp add: utf8_decode_def utf8_len_def utf8_ord_def lbrace_def rbrace_def dot_def)

lemma utf8_arabic_indic:
  "utf8_decode arabic_indic_notes
   = [lbrace, lbrace, 48, dot, 48, 53, rbrace, rbrace, 32,
      lbrace, lbrace, 1632, dot, 1632, 1633, rbrace, rbrace]"
  by (simp add: arabic_indic_notes_def utf8_decode_def utf8_len_def utf8_ord_def
      lbrace_def rbrace_def dot_def)

lemma spec_example_value:
  "extract_multiplier arabic_indic (decimal_value arabic_indic)
     (JStr ''desc {{0.10}} extra {{0.05}}'') = Inr (5 / 100)"
  by (simp add: utf8_spec_example match_here_def is_digit_def to_decimal_def
      decimal_value_def digits_val_def py_min_def lbrace_def rbrace_def dot_def
      arabic_indic_def)

lemma arabic_indic_value:
  "extract_multiplier arabic_indic (decimal_value arabic_indic)
     (JStr arabic_indic_notes) = Inr (1 / 100)"
  by (simp add: utf8_arabic_indic match_here_def is_digit_def to_decimal_def
      decimal_value_def digits_val_def py_min_def lbrace_def rbrace_def dot_def
      arabic_indic_def)

text \<open>
  C2. For every notes string, the product-embedded rate is the minimum of the floats of
  the decimals of the markers \<^verbatim>\<open>{{<decimal>}}\<close> that appear in it, and 0.0 when there is
  none. With \<^verbatim>\<open>float\<close> read as a monotone rounding \<open>rnd\<close> of the decimal value (to the
  nearest double, to the infinity beyond the doubles), it is the rounding of the minimum
  of the decimal values of the markers.
\<close>

theorem extract_multiplier_is_min_of_markers:
  fixes fl :: "nat list \<Rightarrow> 'f::{linorder,zero}" and rnd :: "real \<Rightarrow> 'f"
  shows "extract_multiplier ud fl (JStr obs) =
           Inr (if marker_texts ud (utf8_decode obs) = {} then 0
                else Min (fl ` marker_texts ud (utf8_decode obs)))
       \<and> (mono rnd \<longrightarrow>
            extract_multiplier ud (\<lambda>g. rnd (decimal_value ud g)) (JStr obs) =
              Inr (if marker_values ud (utf8_decode obs) = {} then 0
                   else rnd (Min (marker_values ud (utf8_decode obs)))))"
  using extract_multiplier_Min [of ud fl obs] extract_multiplier_rounded [of rnd ud obs]
  by blast

theorem extract_multiplier_spec_example:
  "mono (\<lambda>x :: real. x)
   \<and> extract_multiplier arabic_indic (decimal_value arabic_indic)
       (JStr ''desc {{0.10}} extra {{0.05}}'') = Inr (5 / 100)
   \<and> marker_values arabic_indic (utf8_decode ''desc {{0.10}} extra {{0.05}}'') \<noteq> {}
   \<and> Min (marker_values arabic_indic (utf8_decode ''desc {{0.10}} extra {{0.05}}''))
       = 5 / 100
   \<and> extract_multiplier arabic_indic (decimal_value arabic_indic)
       (JStr arabic_indic_notes) = Inr (1 / 100)
   \<and> Min (marker_values arabic_indic (utf8_decode arabic_indic_notes)) = 1 / 100"
proof -
  let ?s = "''desc {{0.10}} extra {{0.05}}''"
  have m: "mono (\<lambda>x :: real. x)" by (simp add: mono_def)
  from extract_multiplier_is_min_of_markers
         [of arabic_indic "decimal_value arabic_indic" ?s "\<lambda>x :: real. x"] m
       spec_example_value
  have e: "(if marker_values arabic_indic (utf8_decode ?s) = {} then 0
            else Min (marker_values arabic_indic (utf8_decode ?s))) = (5 / 100 :: real)"
    by (simp del: extract_multiplier.simps)
  then have ne: "marker_values arabic_indic (utf8_decode ?s) \<noteq> {}"
    by (auto split: if_splits)
  with e have v: "Min (marker_values arabic_indic (utf8_decode ?s)) = 5 / 100" by simp
  from extract_multiplier_is_min_of_markers
         [of arabic_indic "decimal_value arabic_indic" arabic_indic_notes "\<lambda>x :: real. x"] m
       arabic_indic_value
  have e2: "(if marker_values arabic_indic (utf8_decode arabic_indic_notes) = {} then 0
            else Min (marker_values arabic_indic (utf8_decode arabic_indic_notes)))
            = (1 / 100 :: real)"
    by (simp del: extract_multiplier.simps)
  then have "marker_values arabic_indic (utf8_decode arabic_indic_notes) \<noteq> {}"
    by (auto split: if_splits)
  with e2 have v2: "Min (marker_values arabic_indic (utf8_decode arabic_indic_notes)) = 1 / 100"
    by simp
  from m spec_example_value ne v arabic_indic_value v2 show ?thesis by blast
qed

subsection \<open>Results\<close>

lemma rbind_Inr [simp]: "rbind (Inr x) f = f x"
  by (simp add: rbind_def)

lemma rbind_Inl [simp]: "rbind (Inl e) f = Inl e"
  by (simp add: rbind_def)

lemma rbind_eq_Inr: "rbind m f = Inr y \<longleftrightarrow> (\<exists>x. m = Inr x \<and> f x = Inr y)"
  by (cases m) simp_all

subsection \<open>The situational rate\<close>

lemma get_special_multiplier_raises:
  "get_special_multiplier datetime_time env ts = Inl TypeError"
  by (simp add: get_special_multiplier_def in_window_def datetime_time_def Let_def)

lemma windows_disjoint: "\<not> (morning_window t \<and> happyhour_window wd t)"
  by (auto simp: morning_window_def happyhour_window_def time_le_def time_lt_def)

lemma py_sum_simps [simp]: "py_sum [] = 0" "py_sum [x] = x" "py_sum [x, y] = x + y"
  by (simp_all add: py_sum_def)

lemma scn_env_fields:
  "FIDELIDADE_MULTIPLIER scn_env = 2 / 100" "MORNING_MULTIPLIER scn_env = 3 / 100"
  "HAPPYHOUR_MULTIPLIER scn_env = 0" "tz_history scn_env = (\<lambda>t. - 10800)"
  "unicode_decimal scn_env = arabic_indic"
  "float_of_match scn_env = decimal_value arabic_indic"
  by (simp_all add: scn_env_def)

lemma promo_env_fields:
  "FIDELIDADE_MULTIPLIER promo_env = 2 / 100" "MORNING_MULTIPLIER promo_env = 3 / 100"
  "HAPPYHOUR_MULTIPLIER promo_env = 5 / 100" "tz_history promo_env = (\<lambda>t. - 10800)"
  by (simp_all add: promo_env_def scn_env_fields)

lemma friday_0600_val:
  "friday_0600 = \<lparr>ordinal = 738946, dt_hour = 9, dt_minute = 0, dt_second = 0,
      dt_microsecond = 0, utcoffset = 0\<rparr>"
  by (simp add: friday_0600_def utc_datetime_def ymd2ord_def days_before_year_def
      days_before_month_def is_leap_def)

lemma scn_timestamp_val:
  "scn_timestamp = \<lparr>ordinal = 738946, dt_hour = 7, dt_minute = 30, dt_second = 0,
      dt_microsecond = 0, utcoffset = 0\<rparr>"
  by (simp add: scn_timestamp_def utc_datetime_def ymd2ord_def days_before_year_def
      days_before_month_def is_leap_def)

lemma dst_end: "ymd2ord 2019 2 17 * 86400 + 7200 = 63686052000"
  by (simp add: ymd2ord_def days_before_year_def days_before_month_def is_leap_def)

lemma friday_0600_sp:
  "convert_to_sao_paulo_time h friday_0600 =
     \<lparr>ordinal = 738946, dt_hour = 6, dt_minute = 0, dt_second = 0, dt_microsecond = 0,
      utcoffset = - 10800\<rparr>"
  by (simp add: convert_to_sao_paulo_time_def astimezone_def sao_paulo_utcoffset_def
      utc_seconds_def friday_0600_val dst_end Let_def)

lemma scn_timestamp_sp:
  "convert_to_sao_paulo_time h scn_timestamp =
     \<lparr>ordinal = 738946, dt_hour = 4, dt_minute = 30, dt_second = 0, dt_microsecond = 0,
      utcoffset = - 10800\<rparr>"
  by (simp add: convert_to_sao_paulo_time_def astimezone_def sao_paulo_utcoffset_def
      utc_seconds_def scn_timestamp_val dst_end Let_def)

lemma friday_0600_local:
  "weekday (convert_to_sao_paulo_time h friday_0600) = 4"
  "dt_time (convert_to_sao_paulo_time h friday_0600)
     = \<lparr>hour = 6, minute = 0, second = 0, microsecond = 0\<rparr>"
  by (simp_all add: friday_0600_sp weekday_def dt_time_def)

text \<open>
  C3. The program returns no situational rate: \<open>get_special_multiplier\<close> raises TypeError
  for every configuration and every processing timestamp, when it evaluates
  \<^verbatim>\<open>datetime.time(5, 0, 0)\<close> for its first comparison. At the claim's input, a processing
  timestamp whose Sao Paulo local time is Friday 06:00 (2024-03-01T09:00:00Z) with a
  morning rate of 0.03 and a happy-hour rate of 0.05, the result is the exception, not
  the rate 0.08. Of the two windows of the specification only the morning window
  contains 06:00; the happy-hour window is Friday [18:00, 22:00), and no time of day
  lies in both.
\<close>

theorem situational_rate_raises_type_error:
  "get_special_multiplier datetime_time env ts = Inl TypeError
   \<and> weekday (convert_to_sao_paulo_time (tz_history promo_env) friday_0600) = 4
   \<and> dt_time (convert_to_sao_paulo_time (tz_history promo_env) friday_0600)
       = \<lparr>hour = 6, minute = 0, second = 0, microsecond = 0\<rparr>
   \<and> MORNING_MULTIPLIER promo_env + HAPPYHOUR_MULTIPLIER promo_env = 8 / 100
   \<and> get_special_multiplier datetime_time promo_env friday_0600 = Inl TypeError
   \<and> get_special_multiplier datetime_time promo_env friday_0600
       \<noteq> Inr (MORNING_MULTIPLIER promo_env + HAPPYHOUR_MULTIPLIER promo_env)
   \<and> morning_window \<lparr>hour = 6, minute = 0, second = 0, microsecond = 0\<rparr>
   \<and> \<not> happyhour_window 4 \<lparr>hour = 6, minute = 0, second = 0, microsecond = 0\<rparr>
   \<and> \<not> (morning_window t \<and> happyhour_window wd t)"
  using friday_0600_local [of "tz_history promo_env"] windows_disjoint [of t wd]
    get_special_multiplier_raises [of promo_env friday_0600]
    get_special_multiplier_raises [of env ts]
  by (simp add: promo_env_fields morning_window_def happyhour_window_def time_le_def
      time_lt_def)

subsection \<open>Order totals\<close>






subsection \<open>The writer\<close>

text \<open>
  C9. The writer reads nothing of the warehouse before it inserts: when the service
  accepts the calls, running it twice appends two order rows and both lists of item
  rows, whatever their key columns, equal ones included.
\<close>

theorem load_twice_appends_twice:
  assumes "\<not> provisioning_raises svc" and "sales_insert svc = Appended"
    and "items_insert svc = Appended"
  shows "load_data_to_bigquery svc (load_data_to_bigquery svc w r1 rs1) r2 rs2
         = w\<lparr>sales_table := sales_table w @ [r1, r2],
              sales_items_table := sales_items_table w @ rs1 @ rs2\<rparr>"
  using assms by (simp add: load_data_to_bigquery_def)

subsection \<open>Acknowledgement\<close>

lemma process_message_acks:
  "data_utf8 msg = Some uuid \<Longrightarrow>
   fst (process_message tc env bucket svc msg st) = None
   \<and> acks (snd (process_message tc env bucket svc msg st)) = acks st + 1"
  by (cases "process_message_try tc env bucket svc uuid (wh st)")
     (simp_all add: process_message_def ack_def)

lemma pubsub_callback_acks:
  "acks (pubsub_callback tc env bucket svc msg st) = acks st + 1"
proof (cases "map_of (attributes msg) ''Processing-Timestamp''")
  case None
  then show ?thesis by (simp add: pubsub_callback_def ack_def)
next
  case (Some s)
  show ?thesis
  proof (cases "s = []")
    case True
    with Some show ?thesis by (simp add: pubsub_callback_def ack_def)
  next
    case False
    with Some show ?thesis
      by (cases "py_fromisoformat env s") (simp_all add: pubsub_callback_def ack_def call_def)
  qed
qed

text \<open>
  C7. A message whose payload decodes is acknowledged exactly once by
  \<open>process_message\<close>, and no exception leaves the function, whatever the correlation,
  the extraction, the assembly and the writer do; \<open>pubsub_callback\<close> acknowledges
  every message exactly once.
\<close>

theorem message_acknowledged_exactly_once:
  "(data_utf8 msg \<noteq> None \<longrightarrow>
      fst (process_message tc env bucket svc msg st) = None
      \<and> acks (snd (process_message tc env bucket svc msg st)) = acks st + 1)
   \<and> acks (pubsub_callback tc env bucket svc msg st) = acks st + 1"
  using process_message_acks [of msg _ tc env bucket svc st]
        pubsub_callback_acks [of tc env bucket svc msg st]
  by auto

subsection \<open>The scenario, evaluated\<close>

lemma scn_env_more:
  "PROJECT_ID scn_env = Some ''proj''" "SOURCE_IDENTIFIER scn_env = Some ''tiny''"
  "VERSION_CONTROL scn_env = Some ''v1''"
  "clock scn_env = (\<lambda>n. if n = 0 then ''2024-03-01T04:30:00-03:00''
                   else ''2024-03-01T04:30:01-03:00'')"
  "strptime_dmy scn_env = (\<lambda>s. if s = ''01/03/2024'' then Some ''2024-03-01'' else None)"
  "fromisoformat scn_env = (\<lambda>s. if s = ''2024-03-01T07:30:00+00:00''
                            then Some (utc_datetime 2024 3 1 7 30 0) else None)"
  by (simp_all add: scn_env_def)

lemma scn_parse:
  "parse_float scn_env = (\<lambda>s. if is_decimal (utf8_decode s)
                                then Some (decimal_value arabic_indic (utf8_decode s))
                                else None)"
  by (simp add: scn_env_def)

lemma scn_floats:
  "parse_float scn_env ''2.00'' = Some 2"
  "parse_float scn_env ''10.00'' = Some 10"
  "parse_float scn_env ''0.00'' = Some 0"
  "parse_float scn_env ''4.00'' = Some 4"
  "parse_float scn_env ''25.00'' = Some 25"
  by (simp_all add: scn_parse utf8_decode_def utf8_len_def utf8_ord_def is_decimal_def
      is_digit_def to_decimal_def decimal_value_def digits_val_def dot_def arabic_indic_def)

lemma scn_marker:
  "extract_multiplier arabic_indic (decimal_value arabic_indic) (JStr ''promo {{0.10}}'')
   = Inr (1 / 10)"
  by (simp add: utf8_decode_def utf8_len_def utf8_ord_def match_here_def is_digit_def
      to_decimal_def decimal_value_def digits_val_def py_min_def lbrace_def rbrace_def
      dot_def arabic_indic_def)


lemma process_pedido_item_dropped:
  assumes "py_getitem item ''idProduto'' = Inr pid" and "dict_get pd pid = Inr pr"
    and "\<not> py_truthy pr"
  shows "process_pedido_item tc env k item pd ts dia uuid nv iv cn cc = Inr (0, 0, None)"
  using assms by (simp add: process_pedido_item_def)

lemma scn_item2_dropped:
  "process_pedido_item tc env k scn_item2 scn_produto_data ts dia uuid nv iv cn cc
   = Inr (0, 0, None)"
  by (rule process_pedido_item_dropped [where pid = "JStr ''p2''" and pr = JNull])
     (simp_all add: scn_produto_data_def scn_item2_def)

lemma scn_pedido_keys:
  "py_getitem scn_pedido ''id'' = Inr (JStr ''1001'')"
  "py_getitem scn_pedido ''numero'' = Inr (JStr ''77'')"
  "py_getitem scn_pedido ''itens'' = Inr (JArr [scn_item1, scn_item2])"
  by (simp_all add: scn_pedido_def)

lemma scn_items_raise:
  "process_pedido_items datetime_time scn_env scn_pedido scn_produto_data scn_timestamp
     ''2024-03-01'' ''abc123'' (JStr ''Ana'') (JStr ''7'') (JStr ''Maria'') (JStr ''123'')
   = Inl TypeError"
  by (simp add: process_pedido_items_def scn_pedido_keys scn_item1_def
      process_pedido_item_def scn_produto_data_def scn_produto1_def scn_floats scn_marker
      scn_env_fields get_special_multiplier_raises del: extract_multiplier.simps)

lemma scn_items_no_products:
  "process_pedido_items tc scn_env scn_pedido Map.empty scn_timestamp
     ''2024-03-01'' ''abc123'' (JStr ''Ana'') (JStr ''7'') (JStr ''Maria'') (JStr ''123'')
   = Inr (0, 0, [])"
  by (simp add: process_pedido_items_def scn_pedido_keys scn_item1_def scn_item2_def
      process_pedido_item_def)

subsection \<open>One item\<close>

lemma rbind_const_Inl [simp]: "rbind m (\<lambda>x. Inl e) \<noteq> Inr y"
  by (cases m) simp_all

lemma process_pedido_item_source_binding:
  assumes "process_pedido_item datetime_time env k item pd ts dia uuid nv iv cn cc
           = Inr (v, p, ro)"
  shows "ro = None \<and> v = 0 \<and> p = 0"
proof -
  from assms obtain pid pr where
    r: "(if py_truthy pr then
          rbind (py_get item ''descricao'' (JStr [])) (\<lambda>produto_descricao.
          rbind (rbind (py_get item ''quantidade'' (JInt 0)) (py_float (parse_float env)))
            (\<lambda>produto_quantidade.
          rbind (rbind (py_get item ''valor'' (JInt 0)) (py_float (parse_float env)))
            (\<lambda>produto_valor.
          rbind (rbind (py_get item ''desconto'' (JInt 0)) (py_float (parse_float env)))
            (\<lambda>produto_desconto.
          rbind (rbind (rbind (py_getitem pr ''produto'')
                          (\<lambda>p. py_get p ''preco_custo'' (JInt 0)))
                   (py_float (parse_float env)))
            (\<lambda>produto_preco_custo.
          rbind (rbind (py_getitem pr ''produto'') (\<lambda>p. py_get p ''obs'' (JStr [])))
            (\<lambda>produto_obs.
          rbind (rbind (py_getitem pr ''produto'') (\<lambda>p. py_get p ''categoria'' (JStr [])))
            (\<lambda>produto_categoria.
          rbind (extract_multiplier (unicode_decimal env) (float_of_match env) produto_obs)
            (\<lambda>produto_multiplier.
          (Inl TypeError :: error + real \<times> real \<times> sales_items_row option)))))))))
        else Inr (0, 0, None)) = Inr (v, p, ro)"
    unfolding process_pedido_item_def get_special_multiplier_raises rbind_Inl rbind_eq_Inr
    by blast
  show ?thesis
  proof (cases "py_truthy pr")
    case True
    with r have False by (simp add: rbind_eq_Inr)
    then show ?thesis ..
  next
    case False
    with r show ?thesis by simp
  qed
qed

subsection \<open>The loop over the items\<close>

lemma map_of_filter_other:
  "k' \<noteq> k \<Longrightarrow> map_of (filter (\<lambda>kv. fst kv \<noteq> k) kvs) k' = map_of kvs k'"
  by (induction kvs) auto

lemma py_getitem_setitem:
  "py_setitem item k v = Inr item' \<Longrightarrow>
   py_getitem item' k' = (if k' = k then Inr v else py_getitem item k')"
  by (cases item) (auto simp: map_of_filter_other)

lemma py_setitem_dict:
  "py_getitem item k' = Inr x \<Longrightarrow> \<exists>item'. py_setitem item k v = Inr item'"
  by (cases item) auto

lemma items_loop_step:
  assumes "items_loop tc env ped pd ts dia uuid nv iv cn cc (item # items) rows0 = Inr rows"
  shows "\<exists>pid pnum item2 v p ro.
           py_getitem ped ''id'' = Inr pid \<and> py_getitem ped ''numero'' = Inr pnum
           \<and> py_getitem item2 ''idProduto'' = py_getitem item ''idProduto''
           \<and> process_pedido_item tc env (length rows0) item2 pd ts dia uuid nv iv cn cc
               = Inr (v, p, ro)
           \<and> items_loop tc env ped pd ts dia uuid nv iv cn cc items
                (case ro of Some row \<Rightarrow> rows0 @ [row] | None \<Rightarrow> rows0) = Inr rows"
proof -
  from assms obtain pid item1 pnum item2 t where
    a: "py_getitem ped ''id'' = Inr pid" and b: "py_setitem item ''pedido_id'' pid = Inr item1"
    and c: "py_getitem ped ''numero'' = Inr pnum"
    and d: "py_setitem item1 ''pedido_numero'' pnum = Inr item2"
    and e: "process_pedido_item tc env (length rows0) item2 pd ts dia uuid nv iv cn cc = Inr t"
    and f: "(case t of (x1, x2, x3) \<Rightarrow>
              items_loop tc env ped pd ts dia uuid nv iv cn cc items
                (case x3 of Some row \<Rightarrow> rows0 @ [row] | None \<Rightarrow> rows0))
            = Inr rows"
    unfolding items_loop.simps rbind_eq_Inr by blast
  obtain v p ro where t: "t = (v, p, ro)" by (cases t)
  have "py_getitem item2 ''idProduto'' = py_getitem item ''idProduto''"
    using py_getitem_setitem [OF b, of "''idProduto''"] py_getitem_setitem [OF d, of "''idProduto''"]
    by simp
  with a c e f t show ?thesis by auto
qed

lemma items_loop_source_binding:
  "items_loop datetime_time env ped pd ts dia uuid nv iv cn cc items rows0 = Inr rows
   \<Longrightarrow> rows = rows0"
proof (induction items arbitrary: rows0)
  case Nil
  then show ?case by simp
next
  case (Cons item items)
  from items_loop_step [OF Cons.prems] obtain item2 v p ro where
    e: "process_pedido_item datetime_time env (length rows0) item2 pd ts dia uuid nv iv cn cc
          = Inr (v, p, ro)" and
    f: "items_loop datetime_time env ped pd ts dia uuid nv iv cn cc items
          (case ro of Some row \<Rightarrow> rows0 @ [row] | None \<Rightarrow> rows0) = Inr rows"
    by blast
  from process_pedido_item_source_binding [OF e] have "ro = None" by simp
  with f Cons.IH show ?case by simp
qed

lemma process_pedido_items_source_binding:
  assumes "process_pedido_items datetime_time env ped pd ts dia uuid nv iv cn cc
           = Inr (v, p, rows)"
  shows "rows = [] \<and> v = 0 \<and> p = 0"
proof -
  from assms obtain items rs where
    l: "items_loop datetime_time env ped pd ts dia uuid nv iv cn cc items [] = Inr rs" and
    r: "(let pedido_valor = py_sum (map produto_valor_total rs);
             pedido_pontos = py_sum (map produto_pontos rs)
         in (Inr (pedido_valor, pedido_pontos, rs)
               :: error + real \<times> real \<times> sales_items_row list)) = Inr (v, p, rows)"
    unfolding process_pedido_items_def rbind_eq_Inr by blast
  from items_loop_source_binding [OF l] have "rs = []" .
  with r show ?thesis by (auto simp: Let_def)
qed

text \<open>
  As the program is written no item row is ever assembled: \<open>process_pedido_items\<close>
  raises, or returns no row and the totals 0.
\<close>

lemma process_pedido_items_raises_or_empty:
  "(\<exists>e. process_pedido_items datetime_time env ped pd ts dia uuid nv iv cn cc = Inl e)
   \<or> process_pedido_items datetime_time env ped pd ts dia uuid nv iv cn cc = Inr (0, 0, [])"
proof (cases "process_pedido_items datetime_time env ped pd ts dia uuid nv iv cn cc")
  case (Inl e)
  then show ?thesis by simp
next
  case (Inr t)
  obtain v p rows where t: "t = (v, p, rows)" by (cases t)
  from process_pedido_items_source_binding [OF Inr [unfolded t]] Inr t
  show ?thesis by simp
qed

lemma scn_prepare:
  "prepare_sales_row scn_env k ''abc123'' scn_timestamp ''2024-03-01'' scn_pedido
     (JStr ''Ana'') (JStr ''7'') (JStr ''Maria'') (JStr ''123'') v p
   = Inr (scn_sales_row v p (clock scn_env k))"
  by (simp add: prepare_sales_row_def scn_pedido_keys scn_sales_row_def scn_timestamp_sp
      scn_local_time_def scn_env_fields scn_env_more)

subsection \<open>Instances in the scenario\<close>


theorem load_twice_scenario:
  "\<not> provisioning_raises svc_ok \<and> sales_insert svc_ok = Appended
   \<and> items_insert svc_ok = Appended
   \<and> row_uuid (scn_sales_row 20 (12 / 5) (clock scn_env 0))
       = row_uuid (scn_sales_row 20 (12 / 5) (clock scn_env 1))
   \<and> row_pedido_id (scn_sales_row 20 (12 / 5) (clock scn_env 0))
       = row_pedido_id (scn_sales_row 20 (12 / 5) (clock scn_env 1))
   \<and> load_data_to_bigquery svc_ok
        (load_data_to_bigquery svc_ok (wh empty_state)
           (scn_sales_row 20 (12 / 5) (clock scn_env 0)) [scn_item_row])
        (scn_sales_row 20 (12 / 5) (clock scn_env 1)) [scn_item_row]
     = \<lparr>sales_table = [scn_sales_row 20 (12 / 5) (clock scn_env 0),
                        scn_sales_row 20 (12 / 5) (clock scn_env 1)],
        sales_items_table = [scn_item_row, scn_item_row]\<rparr>"
proof -
  have a: "\<not> provisioning_raises svc_ok" and b: "sales_insert svc_ok = Appended"
    and c: "items_insert svc_ok = Appended"
    by (simp_all add: svc_ok_def)
  from load_twice_appends_twice [OF a b c, of "wh empty_state"
      "scn_sales_row 20 (12 / 5) (clock scn_env 0)" "[scn_item_row]"
      "scn_sales_row 20 (12 / 5) (clock scn_env 1)" "[scn_item_row]"] a b c
  show ?thesis by (simp add: empty_state_def scn_sales_row_def)
qed

theorem message_acknowledged_scenario:
  "data_utf8 scn_message \<noteq> None
   \<and> fst (process_message datetime_time scn_env
            (Inr [scn_blob_pesquisa, scn_blob_pdv, scn_blob_produto1]) svc_ok scn_message
            empty_state) = None
   \<and> acks (snd (process_message datetime_time scn_env
            (Inr [scn_blob_pesquisa, scn_blob_pdv, scn_blob_produto1]) svc_ok scn_message
            empty_state)) = 1
   \<and> acks (pubsub_callback datetime_time scn_env
            (Inr [scn_blob_pesquisa, scn_blob_pdv, scn_blob_produto1]) svc_ok scn_message
            empty_state) = 1"
proof -
  have d: "data_utf8 scn_message \<noteq> None" by (simp add: scn_message_def)
  have z: "acks empty_state = 0" by (simp add: empty_state_def)
  from message_acknowledged_exactly_once [of scn_message datetime_time scn_env
      "Inr [scn_blob_pesquisa, scn_blob_pdv, scn_blob_produto1]" svc_ok empty_state] d z
  show ?thesis by simp
qed

subsection \<open>Extraction of the order header\<close>

lemma extract_pdv_data_fields:
  assumes "extract_pdv_data env doc = Inr f"
  shows "f = all_none
       \<or> (\<exists>ped dia tp tv c. pedido_of doc = Inr ped
             \<and> py_getitem ped ''id'' = Inr (f_pedido_id f)
             \<and> py_getitem ped ''numero'' = Inr (f_pedido_numero f)
             \<and> rbind (py_getitem ped ''data'') (py_strptime (strptime_dmy env)) = Inr dia
             \<and> f_pedido_dia f = Some dia
             \<and> rbind (py_getitem ped ''totalProdutos'') (py_float (parse_float env)) = Inr tp
             \<and> f_total_produtos f = Some tp
             \<and> rbind (py_getitem ped ''totalVenda'') (py_float (parse_float env)) = Inr tv
             \<and> f_total_venda f = Some tv
             \<and> py_getitem ped ''observacoes'' = Inr (f_observacoes f)
             \<and> py_getitem ped ''formaPagamento'' = Inr (f_forma_pagamento f)
             \<and> py_getitem ped ''contato'' = Inr c
             \<and> py_getitem c ''nome'' = Inr (f_cliente_nome f)
             \<and> py_getitem c ''cpfCnpj'' = Inr (f_cliente_cpf f))"
proof -
  define m where "m =
       (rbind (py_getitem doc ''retorno'') (\<lambda>r.
        rbind (py_getitem r ''pedido'') (\<lambda>pedido_pdv.
        rbind (py_getitem pedido_pdv ''id'') (\<lambda>pedido_id.
        rbind (py_getitem pedido_pdv ''numero'') (\<lambda>pedido_numero.
        rbind (rbind (py_getitem pedido_pdv ''data'') (py_strptime (strptime_dmy env)))
          (\<lambda>pedido_dia.
        rbind (rbind (py_getitem pedido_pdv ''totalProdutos'') (py_float (parse_float env)))
          (\<lambda>total_produtos.
        rbind (rbind (py_getitem pedido_pdv ''totalVenda'') (py_float (parse_float env)))
          (\<lambda>total_venda.
        rbind (py_getitem pedido_pdv ''observacoes'') (\<lambda>observacoes.
        rbind (py_getitem pedido_pdv ''formaPagamento'') (\<lambda>forma_pagamento.
        rbind (rbind (py_getitem pedido_pdv ''contato'') (\<lambda>c. py_getitem c ''nome''))
          (\<lambda>cliente_nome.
        rbind (rbind (py_getitem pedido_pdv ''contato'') (\<lambda>c. py_getitem c ''cpfCnpj''))
          (\<lambda>cliente_cpf.
        Inr \<lparr>f_pedido_id = pedido_id, f_pedido_numero = pedido_numero,
             f_pedido_dia = Some pedido_dia, f_total_produtos = Some total_produtos,
             f_total_venda = Some total_venda, f_observacoes = observacoes,
             f_forma_pagamento = forma_pagamento, f_cliente_nome = cliente_nome,
             f_cliente_cpf = cliente_cpf\<rparr>))))))))))))"
  have e: "extract_pdv_data env doc = py_except [KeyError, ValueError] all_none m"
    by (simp add: extract_pdv_data_def m_def)
  show ?thesis
  proof (cases m)
    case (Inl x)
    with e assms have "f = all_none"
      by (auto simp: py_except_def split: if_splits)
    then show ?thesis ..
  next
    case (Inr g)
    with e assms have fg: "g = f" by (simp add: py_except_def)
    from Inr [unfolded m_def rbind_eq_Inr] fg
    show ?thesis unfolding pedido_of_def rbind_eq_Inr by fastforce
  qed
qed

lemma extract_pdv_data_raises:
  "extract_pdv_data env doc = Inl e \<Longrightarrow> e \<noteq> KeyError \<and> e \<noteq> ValueError"
  unfolding extract_pdv_data_def py_except_def
  by (auto split: sum.splits if_splits)

subsection \<open>Messages that write nothing\<close>

lemma handle_documents_incomplete:
  assumes "extract_pdv_data env (pdv data) = Inr all_none
           \<or> (\<exists>e. extract_pdv_data env (pdv data) = Inl e)"
  shows "handle_documents tc env svc uuid data w = Inr w
         \<or> (\<exists>e. handle_documents tc env svc uuid data w = Inl e)"
proof (cases "corr_timestamp data")
  case None
  then show ?thesis by (simp add: handle_documents_def)
next
  case (Some ts)
  show ?thesis
  proof (cases "py_truthy (pesquisa data) \<and> py_truthy (pdv data)")
    case False
    with Some show ?thesis by (auto simp: handle_documents_def)
  next
    case True
    show ?thesis
    proof (cases "extract_pesquisa_data (pesquisa data)")
      case (Inl e)
      with Some True show ?thesis by (simp add: handle_documents_def)
    next
      case (Inr ni)
      obtain n i where ni: "ni = (n, i)" by (cases ni)
      from assms show ?thesis
      proof
        assume "extract_pdv_data env (pdv data) = Inr all_none"
        with Some True Inr ni show ?thesis
          by (simp add: handle_documents_def all_none_def)
      next
        assume "\<exists>e. extract_pdv_data env (pdv data) = Inl e"
        with Some True Inr ni show ?thesis
          by (auto simp: handle_documents_def)
      qed
    qed
  qed
qed

lemma handle_documents_missing:
  assumes "\<not> py_truthy (pesquisa data) \<or> \<not> py_truthy (pdv data) \<or> corr_timestamp data = None"
  shows "handle_documents tc env svc uuid data w = Inr w"
  using assms by (cases "corr_timestamp data") (auto simp: handle_documents_def)

lemma process_message_unchanged:
  assumes "data_utf8 msg = Some uuid" and "download_json_files env bucket uuid = Inr data"
    and "handle_documents tc env svc uuid data (wh st) = Inr (wh st)
         \<or> (\<exists>e. handle_documents tc env svc uuid data (wh st) = Inl e)"
  shows "process_message tc env bucket svc msg st = (None, st\<lparr>acks := acks st + 1\<rparr>)"
  using assms by (auto simp: process_message_def process_message_try_def ack_def)

text \<open>
  C10, as the program has it. Where \<open>extract_pdv_data\<close> returns, it returns all nine
  fields of the order document or nine \<^verbatim>\<open>None\<close> values, the latter when a KeyError or a
  ValueError was raised; it is not total, since any other exception (a TypeError for a
  field that is \<^verbatim>\<open>null\<close> or of the wrong type) leaves the function. In both of these
  cases no row is written for the message.
\<close>

theorem extract_pdv_data_all_or_nothing:
  "(\<forall>f. extract_pdv_data env doc = Inr f \<longrightarrow>
      f = all_none
      \<or> (\<exists>ped dia tp tv c. pedido_of doc = Inr ped
            \<and> py_getitem ped ''id'' = Inr (f_pedido_id f)
            \<and> py_getitem ped ''numero'' = Inr (f_pedido_numero f)
            \<and> rbind (py_getitem ped ''data'') (py_strptime (strptime_dmy env)) = Inr dia
            \<and> f_pedido_dia f = Some dia
            \<and> rbind (py_getitem ped ''totalProdutos'') (py_float (parse_float env)) = Inr tp
            \<and> f_total_produtos f = Some tp
            \<and> rbind (py_getitem ped ''totalVenda'') (py_float (parse_float env)) = Inr tv
            \<and> f_total_venda f = Some tv
            \<and> py_getitem ped ''observacoes'' = Inr (f_observacoes f)
            \<and> py_getitem ped ''formaPagamento'' = Inr (f_forma_pagamento f)
            \<and> py_getitem ped ''contato'' = Inr c
            \<and> py_getitem c ''nome'' = Inr (f_cliente_nome f)
            \<and> py_getitem c ''cpfCnpj'' = Inr (f_cliente_cpf f)))
   \<and> (\<forall>e. extract_pdv_data env doc = Inl e \<longrightarrow> e \<noteq> KeyError \<and> e \<noteq> ValueError)
   \<and> (\<forall>data uuid.
        data_utf8 msg = Some uuid \<and> download_json_files env bucket uuid = Inr data
        \<and> pdv data = doc
        \<and> (extract_pdv_data env doc = Inr all_none \<or> (\<exists>e. extract_pdv_data env doc = Inl e))
        \<longrightarrow> process_message tc env bucket svc msg st = (None, st\<lparr>acks := acks st + 1\<rparr>))"
proof (intro conjI allI impI)
  fix f assume "extract_pdv_data env doc = Inr f"
  then show "f = all_none
      \<or> (\<exists>ped dia tp tv c. pedido_of doc = Inr ped
            \<and> py_getitem ped ''id'' = Inr (f_pedido_id f)
            \<and> py_getitem ped ''numero'' = Inr (f_pedido_numero f)
            \<and> rbind (py_getitem ped ''data'') (py_strptime (strptime_dmy env)) = Inr dia
            \<and> f_pedido_dia f = Some dia
            \<and> rbind (py_getitem ped ''totalProdutos'') (py_float (parse_float env)) = Inr tp
            \<and> f_total_produtos f = Some tp
            \<and> rbind (py_getitem ped ''totalVenda'') (py_float (parse_float env)) = Inr tv
            \<and> f_total_venda f = Some tv
            \<and> py_getitem ped ''observacoes'' = Inr (f_observacoes f)
            \<and> py_getitem ped ''formaPagamento'' = Inr (f_forma_pagamento f)
            \<and> py_getitem ped ''contato'' = Inr c
            \<and> py_getitem c ''nome'' = Inr (f_cliente_nome f)
            \<and> py_getitem c ''cpfCnpj'' = Inr (f_cliente_cpf f))"
    by (rule extract_pdv_data_fields)
next
  fix e assume "extract_pdv_data env doc = Inl e"
  from extract_pdv_data_raises [OF this] show "e \<noteq> KeyError" by simp
next
  fix e assume "extract_pdv_data env doc = Inl e"
  from extract_pdv_data_raises [OF this] show "e \<noteq> ValueError" by simp
next
  fix data uuid
  assume a: "data_utf8 msg = Some uuid \<and> download_json_files env bucket uuid = Inr data
        \<and> pdv data = doc
        \<and> (extract_pdv_data env doc = Inr all_none \<or> (\<exists>e. extract_pdv_data env doc = Inl e))"
  then have "extract_pdv_data env (pdv data) = Inr all_none
             \<or> (\<exists>e. extract_pdv_data env (pdv data) = Inl e)" by simp
  from handle_documents_incomplete [OF this, of tc svc uuid "wh st"] a
  show "process_message tc env bucket svc msg st = (None, st\<lparr>acks := acks st + 1\<rparr>)"
    by (intro process_message_unchanged [of msg uuid env bucket data]) auto
qed

text \<open>
  C6, as the program has it. When after the correlation the survey document or the order
  document is missing (or empty), or the processing timestamp is missing, no row is
  written to either table and the message is acknowledged. Product documents are not
  checked: a message without any is processed.
\<close>

theorem missing_survey_order_or_timestamp_writes_nothing:
  assumes "data_utf8 msg = Some uuid" and "download_json_files env bucket uuid = Inr data"
    and "\<not> py_truthy (pesquisa data) \<or> \<not> py_truthy (pdv data) \<or> corr_timestamp data = None"
  shows "process_message tc env bucket svc msg st = (None, st\<lparr>acks := acks st + 1\<rparr>)"
  using handle_documents_missing [OF assms(3), of tc env svc uuid "wh st"]
  by (intro process_message_unchanged [OF assms(1,2)]) simp

subsection \<open>The scenario's documents, correlated and extracted\<close>

lemma scn_iso: "py_fromisoformat scn_env ''2024-03-01T07:30:00Z'' = Inr scn_timestamp"
  by (simp add: py_fromisoformat_def replace_Z_def scn_env_more scn_timestamp_def)

lemma scn_visit:
  "visit_blob scn_env ''abc123'' scn_blob_pesquisa data = Inr (data\<lparr>pesquisa := scn_pesquisa\<rparr>)"
  "visit_blob scn_env ''abc123'' scn_blob_pdv data
     = Inr (data\<lparr>pdv := scn_pdv, corr_timestamp := Some scn_timestamp\<rparr>)"
  "visit_blob scn_env ''abc123'' scn_blob_pdv_no_payment data
     = Inr (data\<lparr>pdv := scn_pdv_no_payment, corr_timestamp := Some scn_timestamp\<rparr>)"
  "visit_blob scn_env ''abc123'' scn_blob_produto1 data
     = Inr (data\<lparr>produto := (produto data)(''p1'' \<mapsto> scn_produto1)\<rparr>)"
  by (simp_all add: visit_blob_def scn_blob_pesquisa_def scn_blob_pdv_def
      scn_blob_pdv_no_payment_def scn_blob_produto1_def scn_iso)

lemma scn_download_no_products:
  "download_json_files scn_env (Inr [scn_blob_pesquisa, scn_blob_pdv]) ''abc123''
   = Inr \<lparr>pesquisa = scn_pesquisa, pdv = scn_pdv, produto = Map.empty,
          corr_timestamp = Some scn_timestamp\<rparr>"
  by (simp add: download_json_files_def scn_visit)

lemma scn_download_no_survey:
  "download_json_files scn_env (Inr [scn_blob_pdv, scn_blob_produto1]) ''abc123''
   = Inr \<lparr>pesquisa = JNull, pdv = scn_pdv, produto = scn_produto_data,
          corr_timestamp = Some scn_timestamp\<rparr>"
  by (simp add: download_json_files_def scn_visit scn_produto_data_def)

lemma scn_download_no_payment:
  "download_json_files scn_env
     (Inr [scn_blob_pesquisa, scn_blob_pdv_no_payment, scn_blob_produto1]) ''abc123''
   = Inr \<lparr>pesquisa = scn_pesquisa, pdv = scn_pdv_no_payment, produto = scn_produto_data,
          corr_timestamp = Some scn_timestamp\<rparr>"
  by (simp add: download_json_files_def scn_visit scn_produto_data_def)

lemma scn_extract_pesquisa: "extract_pesquisa_data scn_pesquisa = Inr (JStr ''Ana'', JStr ''7'')"
  by (simp add: extract_pesquisa_data_def scn_pesquisa_def py_except_def)

lemma scn_pedido_of: "pedido_of scn_pdv = Inr scn_pedido"
  by (simp add: pedido_of_def scn_pdv_def)

lemma scn_extract_pdv:
  "extract_pdv_data scn_env scn_pdv
   = Inr \<lparr>f_pedido_id = JStr ''1001'', f_pedido_numero = JStr ''77'',
          f_pedido_dia = Some ''2024-03-01'', f_total_produtos = Some 25,
          f_total_venda = Some 25, f_observacoes = JStr [],
          f_forma_pagamento = JStr ''dinheiro'', f_cliente_nome = JStr ''Maria'',
          f_cliente_cpf = JStr ''123''\<rparr>"
  by (simp add: extract_pdv_data_def scn_pdv_def scn_pedido_def py_except_def scn_floats
      scn_env_more)

lemma scn_extract_null_total: "extract_pdv_data scn_env scn_pdv_null_total = Inl TypeError"
  by (simp add: extract_pdv_data_def scn_pdv_null_total_def py_except_def scn_env_more)

lemma scn_extract_no_payment: "extract_pdv_data scn_env scn_pdv_no_payment = Inr all_none"
  by (simp add: extract_pdv_data_def scn_pdv_no_payment_def py_except_def scn_floats
      scn_env_more)

lemma scn_handle_no_products:
  "handle_documents tc scn_env svc_ok ''abc123''
     \<lparr>pesquisa = scn_pesquisa, pdv = scn_pdv, produto = Map.empty,
      corr_timestamp = Some scn_timestamp\<rparr> w
   = Inr (w\<lparr>sales_table := sales_table w @ [scn_sales_row 0 0 (clock scn_env 0)]\<rparr>)"
proof -
  have t: "py_truthy scn_pesquisa" "py_truthy scn_pdv"
    by (simp_all add: scn_pesquisa_def scn_pdv_def)
  have p: "rbind (py_getitem scn_pdv ''retorno'') (\<lambda>r. py_getitem r ''pedido'') = Inr scn_pedido"
    using scn_pedido_of by (simp add: pedido_of_def)
  show ?thesis
    by (simp add: handle_documents_def t p scn_extract_pesquisa scn_extract_pdv
        scn_items_no_products scn_prepare load_data_to_bigquery_def svc_ok_def)
qed

text \<open>
  C10, as the claim states it, fails: on an order document whose \<^verbatim>\<open>totalProdutos\<close> is
  \<^verbatim>\<open>null\<close> the function raises TypeError instead of returning nine \<^verbatim>\<open>None\<close> values.
\<close>

theorem extract_pdv_data_not_total:
  "extract_pdv_data scn_env scn_pdv_null_total = Inl TypeError"
  by (rule scn_extract_null_total)

theorem extract_pdv_data_no_payment_method:
  "extract_pdv_data scn_env scn_pdv_no_payment = Inr all_none
   \<and> data_utf8 scn_message = Some ''abc123''
   \<and> download_json_files scn_env
        (Inr [scn_blob_pesquisa, scn_blob_pdv_no_payment, scn_blob_produto1]) ''abc123''
      = Inr \<lparr>pesquisa = scn_pesquisa, pdv = scn_pdv_no_payment, produto = scn_produto_data,
             corr_timestamp = Some scn_timestamp\<rparr>
   \<and> process_message datetime_time scn_env
        (Inr [scn_blob_pesquisa, scn_blob_pdv_no_payment, scn_blob_produto1]) svc_ok
        scn_message empty_state
      = (None, empty_state\<lparr>acks := acks empty_state + 1\<rparr>)"
proof -
  have d: "data_utf8 scn_message = Some ''abc123''" by (simp add: scn_message_def)
  from extract_pdv_data_all_or_nothing [of scn_env scn_pdv_no_payment scn_message
      "Inr [scn_blob_pesquisa, scn_blob_pdv_no_payment, scn_blob_produto1]" datetime_time svc_ok
      empty_state]
  have "\<forall>data uuid.
        data_utf8 scn_message = Some uuid
        \<and> download_json_files scn_env
             (Inr [scn_blob_pesquisa, scn_blob_pdv_no_payment, scn_blob_produto1]) uuid
            = Inr data
        \<and> pdv data = scn_pdv_no_payment
        \<and> (extract_pdv_data scn_env scn_pdv_no_payment = Inr all_none
            \<or> (\<exists>e. extract_pdv_data scn_env scn_pdv_no_payment = Inl e))
        \<longrightarrow> process_message datetime_time scn_env
              (Inr [scn_blob_pesquisa, scn_blob_pdv_no_payment, scn_blob_produto1]) svc_ok
              scn_message empty_state
            = (None, empty_state\<lparr>acks := acks empty_state + 1\<rparr>)"
    by blast
  from this [rule_format, of "''abc123''" "\<lparr>pesquisa = scn_pesquisa,
      pdv = scn_pdv_no_payment, produto = scn_produto_data,
      corr_timestamp = Some scn_timestamp\<rparr>"] d scn_download_no_payment
    scn_extract_no_payment
  show ?thesis by simp
qed

text \<open>
  C6, as the claim states it, fails for the product role: with a survey document, an
  order document and its timestamp but no product document, the order row is written.
\<close>

theorem missing_product_documents_still_writes:
  "process_message datetime_time scn_env (Inr [scn_blob_pesquisa, scn_blob_pdv]) svc_ok
     scn_message empty_state
   = (None, \<lparr>wh = \<lparr>sales_table = [scn_sales_row 0 0 (clock scn_env 0)],
                   sales_items_table = []\<rparr>, acks = 1\<rparr>)"
  by (simp add: process_message_def process_message_try_def scn_message_def
      scn_download_no_products scn_handle_no_products empty_state_def ack_def)

theorem missing_survey_writes_nothing:
  "data_utf8 scn_message = Some ''abc123''
   \<and> download_json_files scn_env (Inr [scn_blob_pdv, scn_blob_produto1]) ''abc123''
      = Inr \<lparr>pesquisa = JNull, pdv = scn_pdv, produto = scn_produto_data,
             corr_timestamp = Some scn_timestamp\<rparr>
   \<and> process_message datetime_time scn_env (Inr [scn_blob_pdv, scn_blob_produto1]) svc_ok
        scn_message empty_state
      = (None, empty_state\<lparr>acks := acks empty_state + 1\<rparr>)"
proof -
  have d: "data_utf8 scn_message = Some ''abc123''" by (simp add: scn_message_def)
  have m: "\<not> py_truthy (pesquisa \<lparr>pesquisa = JNull, pdv = scn_pdv, produto = scn_produto_data,
             corr_timestamp = Some scn_timestamp\<rparr>)
           \<or> \<not> py_truthy (pdv \<lparr>pesquisa = JNull, pdv = scn_pdv, produto = scn_produto_data,
             corr_timestamp = Some scn_timestamp\<rparr>)
           \<or> corr_timestamp \<lparr>pesquisa = JNull, pdv = scn_pdv, produto = scn_produto_data,
             corr_timestamp = Some scn_timestamp\<rparr> = None"
    by simp
  from missing_survey_order_or_timestamp_writes_nothing
         [OF d scn_download_no_survey m, of datetime_time svc_ok empty_state]
       d scn_download_no_survey
  show ?thesis by simp
qed

subsection \<open>The scenario as the program runs it\<close>

lemma scn_download_full:
  "download_json_files scn_env (Inr [scn_blob_pesquisa, scn_blob_pdv, scn_blob_produto1])
     ''abc123''
   = Inr \<lparr>pesquisa = scn_pesquisa, pdv = scn_pdv, produto = scn_produto_data,
          corr_timestamp = Some scn_timestamp\<rparr>"
  by (simp add: download_json_files_def scn_visit scn_produto_data_def)

lemma scn_handle_full:
  "handle_documents datetime_time scn_env svc_ok ''abc123''
     \<lparr>pesquisa = scn_pesquisa, pdv = scn_pdv, produto = scn_produto_data,
      corr_timestamp = Some scn_timestamp\<rparr> w
   = Inl TypeError"
proof -
  have t: "py_truthy scn_pesquisa" "py_truthy scn_pdv"
    by (simp_all add: scn_pesquisa_def scn_pdv_def)
  have p: "rbind (py_getitem scn_pdv ''retorno'') (\<lambda>r. py_getitem r ''pedido'') = Inr scn_pedido"
    using scn_pedido_of by (simp add: pedido_of_def)
  show ?thesis
    by (simp add: handle_documents_def t p scn_extract_pesquisa scn_extract_pdv
        scn_items_raise)
qed

lemma scn_message_full:
  "process_message datetime_time scn_env
     (Inr [scn_blob_pesquisa, scn_blob_pdv, scn_blob_produto1]) svc_ok scn_message empty_state
   = (None, \<lparr>wh = \<lparr>sales_table = [], sales_items_table = []\<rparr>, acks = 1\<rparr>)"
  by (simp add: process_message_def process_message_try_def scn_message_def
      scn_download_full scn_handle_full empty_state_def ack_def)

lemma scn_message_no_products:
  "process_message datetime_time scn_env (Inr [scn_blob_pesquisa, scn_blob_pdv]) svc_ok
     scn_message empty_state
   = (None, \<lparr>wh = \<lparr>sales_table = [scn_sales_row 0 0 (clock scn_env 0)],
                   sales_items_table = []\<rparr>, acks = 1\<rparr>)"
  by (simp add: process_message_def process_message_try_def scn_message_def
      scn_download_no_products scn_handle_no_products empty_state_def ack_def)

text \<open>
  C5. For an item whose product has no metadata \<open>process_pedido_item\<close> returns
  (0.0, 0.0, \<^verbatim>\<open>None\<close>): no row, and nothing added to the totals. The rest of the claim
  fails of the program: an item that has metadata is not processed, because
  \<open>get_special_multiplier\<close> raises TypeError for it (C3), and the exception ends the
  assembly of the order. In the scenario, whose first item has metadata and whose second
  has none, \<open>process_pedido_items\<close> raises, \<open>process_message\<close> writes no order row and
  no item row, and acknowledges the message. For every input, \<open>process_pedido_items\<close>
  raises or returns no item row; the order row is written when every item is dropped,
  as in the scenario without its product document.
\<close>

theorem item_with_metadata_fails_the_message:
  "((\<exists>e. process_pedido_items datetime_time env ped pd ts dia uuid nv iv cn cc = Inl e)
      \<or> process_pedido_items datetime_time env ped pd ts dia uuid nv iv cn cc
          = Inr (0, 0, []))
   \<and> py_getitem scn_item2 ''idProduto'' = Inr (JStr ''p2'')
   \<and> scn_produto_data ''p2'' = None
   \<and> process_pedido_item datetime_time scn_env 0 scn_item2 scn_produto_data scn_timestamp
        ''2024-03-01'' ''abc123'' (JStr ''Ana'') (JStr ''7'') (JStr ''Maria'') (JStr ''123'')
      = Inr (0, 0, None)
   \<and> process_pedido_items datetime_time scn_env scn_pedido scn_produto_data scn_timestamp
        ''2024-03-01'' ''abc123'' (JStr ''Ana'') (JStr ''7'') (JStr ''Maria'') (JStr ''123'')
      = Inl TypeError
   \<and> process_message datetime_time scn_env
        (Inr [scn_blob_pesquisa, scn_blob_pdv, scn_blob_produto1]) svc_ok scn_message
        empty_state
      = (None, \<lparr>wh = \<lparr>sales_table = [], sales_items_table = []\<rparr>, acks = 1\<rparr>)
   \<and> process_message datetime_time scn_env (Inr [scn_blob_pesquisa, scn_blob_pdv]) svc_ok
        scn_message empty_state
      = (None, \<lparr>wh = \<lparr>sales_table = [scn_sales_row 0 0 (clock scn_env 0)],
                      sales_items_table = []\<rparr>, acks = 1\<rparr>)"
proof -
  have a: "py_getitem scn_item2 ''idProduto'' = Inr (JStr ''p2'')"
    by (simp add: scn_item2_def)
  have b: "scn_produto_data ''p2'' = None" by (simp add: scn_produto_data_def)
  from process_pedido_items_raises_or_empty [of env ped pd ts dia uuid nv iv cn cc] a b
    scn_item2_dropped [of datetime_time scn_env 0 scn_timestamp "''2024-03-01''" "''abc123''"
      "JStr ''Ana''" "JStr ''7''" "JStr ''Maria''" "JStr ''123''"]
    scn_items_raise scn_message_full scn_message_no_products
  show ?thesis by blast
qed




end
